theory Spec2Isabelle
  imports Main
begin

section \<open>The paymail router of express-payauth (src/index.js)\<close>

text \<open>
  The module builds one Express router: it validates the base URL, fills a
  capability object with one URL template per enabled sub-protocol, serves that
  object at \<open>/.well-known/bsvalias\<close>, mounts the sub-protocol routers under the
  base path and installs the error handler.  The embedding follows the file line
  by line.  What the file takes from elsewhere is kept apart:
  \<^item> the \<open>URL\<close> constructor of the runtime and the table \<open>CapabilityCodes\<close> of
    \<open>./constants\<close> are parameters (record \<open>env\<close>);
  \<^item> the eight registrars \<open>build...Router\<close> and the package \<open>url-join\<close> are
    modelled from the specification, each under a comment that says so.
\<close>

subsection \<open>Errors\<close>

text \<open>
  A JavaScript error object, as far as this module looks at it: the message and
  the optional \<open>cause\<close> property.
\<close>

datatype js_error = JsError (errMessage: string) (errCause: "js_error option")

text \<open>
  \<open>new Error(message, options)\<close>.  ECMAScript installs a cause only when
  \<open>options\<close> is an object that has a property \<open>cause\<close>, and the cause is then
  the value of that property (InstallErrorCause).  The only second argument this
  module ever passes is a caught error object.
\<close>

definition newError :: "string \<Rightarrow> js_error \<Rightarrow> js_error" where
  "newError msg opts = JsError msg (errCause opts)"

subsection \<open>Parsed URLs\<close>

text \<open>The three properties of a \<open>URL\<close> object that the module reads.\<close>

record url =
  protocol :: string
  hostname :: string
  href :: string

subsection \<open>Capability objects and the heap\<close>

text \<open>
  A capability value is a URL template or the sender-validation flag.  The
  capability object is a JavaScript object: an association list with one entry
  per key.  Assigning to a key that exists replaces its value in place, assigning
  to a new key appends it.  The list keeps the keys in the order of their first
  assignment, the order in which JavaScript enumerates keys that are not array
  indices; no result below depends on that order but through \<open>ownKeys\<close>.
\<close>

datatype cap_value = CapString string | CapBool bool

type_synonym js_object = "(string \<times> cap_value) list"

fun setProp :: "string \<Rightarrow> cap_value \<Rightarrow> js_object \<Rightarrow> js_object" where
  "setProp k v [] = [(k, v)]"
| "setProp k v ((k', v') # rest) =
     (if k' = k then (k, v) # rest else (k', v') # setProp k v rest)"

definition ownKeys :: "js_object \<Rightarrow> string list" where
  "ownKeys obj = map fst obj"

definition getProp :: "js_object \<Rightarrow> string \<Rightarrow> cap_value option" where
  "getProp obj k = map_of obj k"

text \<open>
  The caller may hand in its own capability object (\<open>config.capabilities\<close>), and
  the router keeps a reference to the object it serves, so capability objects
  live in a heap and are named by address.  \<open>nextAddr\<close> is the first address not
  yet in use; \<open>console\<close> collects what \<open>console.warn\<close> printed.
\<close>

record world =
  heap :: "nat \<Rightarrow> js_object"
  nextAddr :: nat
  console :: "string list"

definition newObject :: "world \<Rightarrow> nat \<times> world" where
  "newObject w =
     (nextAddr w, w\<lparr>heap := (heap w)(nextAddr w := []), nextAddr := Suc (nextAddr w)\<rparr>)"

definition assignProp :: "nat \<Rightarrow> string \<Rightarrow> cap_value \<Rightarrow> world \<Rightarrow> world" where
  "assignProp a k v w = w\<lparr>heap := (heap w)(a := setProp k v (heap w a))\<rparr>"

definition consoleWarn :: "string \<Rightarrow> world \<Rightarrow> world" where
  "consoleWarn msg w = w\<lparr>console := console w @ [msg]\<rparr>"

subsection \<open>Configuration\<close>

text \<open>
  The fields of \<open>config\<close> that \<open>buildPaymailRouter\<close> reads.  An absent field is
  \<open>None\<close>.  \<open>callbacks\<close> lists the names of the callback fields that are set;
  \<open>capabilities\<close> is a reference to a capability object of the caller;
  option objects handed to \<open>body-parser\<close> and \<open>cors\<close> are lists of settings;
  \<open>errorHandler\<close> names the error-handling middleware.
\<close>

type_synonym js_options = "(string \<times> string) list"

record config =
  basePath :: "string option"
  useCors :: bool
  corsConfig :: "js_options option"
  bodyParserConfig :: "js_options option"
  requestSenderValidation :: "bool option"
  capabilities :: "nat option"
  callbacks :: "string list"
  errorHandler :: nat

datatype subprotocol =
    Identity
  | GetPaymentDestination
  | VerifyPubkey
  | PublicProfile
  | ReceiveTransaction
  | P2pPaymentDestination
  | P2pPaymentDestinationToken
  | AssetInformation

text \<open>
  \<open>CapabilityCodes\<close> is required from \<open>./constants\<close>, which is not part of the
  sources: its seven members that the module uses are a parameter.
\<close>

record capability_codes =
  code_requestSenderValidation :: string
  code_verifyPublicKeyOwner :: string
  code_publicProfile :: string
  code_receiveTransaction :: string
  code_p2pPaymentDestination :: string
  code_p2pPaymentDestinationWithTokensSupport :: string
  code_assetInformation :: string

text \<open>
  The environment of the module: the runtime's \<open>URL\<close> constructor (it returns
  the parsed URL or throws), the capability codes, and for each sub-protocol the
  names of the callbacks its registrar requires.
\<close>

record env =
  parseURL :: "string \<Rightarrow> js_error + url"
  capabilityCodes :: capability_codes
  requiredCallbacks :: "subprotocol \<Rightarrow> string list"

subsection \<open>Routers\<close>

text \<open>
  An Express router is its stack of layers, in the order they were installed.
  \<open>apiRouter\<close> holds the routers of the sub-protocols; \<open>baseRouter\<close> holds the
  body parser, the cross-origin middleware, the discovery route, the mounted
  \<open>apiRouter\<close> and the error handler.  \<open>ErrorStage\<close> is the layer of
  \<open>config.errorHandler\<close>, which the module documents as the middleware that
  handles errors.
\<close>

datatype handler = SubRouter subprotocol

datatype endpoint = WellKnown nat

datatype stage =
    BodyParserJson js_options
  | Cors js_options
  | GetRoute string endpoint
  | Mount string "handler list"
  | ErrorStage nat

type_synonym router = "stage list"

definition routerUse :: "stage \<Rightarrow> router \<Rightarrow> router" where
  "routerUse s r = r @ [s]"

fun setOption :: "string \<Rightarrow> string \<Rightarrow> js_options \<Rightarrow> js_options" where
  "setOption k v [] = [(k, v)]"
| "setOption k v ((k', v') # rest) =
     (if k' = k then (k, v) # rest else (k', v') # setOption k v rest)"

subsection \<open>getBaseRoute and joinUrls\<close>

text \<open>
  Lines 22 to 24.  \<open>config.basePath || '/'\<close>: an absent and an empty base path
  both give \<open>/\<close>.
\<close>

definition getBaseRoute :: "config \<Rightarrow> string" where
  "getBaseRoute cfg =
     (case basePath cfg of None \<Rightarrow> ''/'' | Some p \<Rightarrow> if p = [] then ''/'' else p)"

fun joinWith :: "string \<Rightarrow> string list \<Rightarrow> string" where
  "joinWith sep [] = []"
| "joinWith sep [p] = p"
| "joinWith sep (p # q # ps) = p @ sep @ joinWith sep (q # ps)"

text \<open>
  Reading a URL from left to right, what matters about the text read so far: it
  ended with a colon or with slashes that follow a colon (\<open>AfterColon\<close>), it
  ended with a slash of the path (\<open>AfterSlash\<close>), or neither (\<open>Plain\<close>).
\<close>

datatype scan = Plain | AfterColon | AfterSlash

text \<open>
  Normalizing the separators of a URL: a slash that follows a slash of the path
  is redundant and is left out; the slashes that follow a colon (those of the
  scheme) are kept; nothing else is touched.
\<close>

fun squeeze :: "scan \<Rightarrow> string \<Rightarrow> string" where
  "squeeze m [] = []"
| "squeeze m (c # cs) =
     (if c = CHR ''/''
      then (case m of
              AfterSlash \<Rightarrow> squeeze AfterSlash cs
            | AfterColon \<Rightarrow> c # squeeze AfterColon cs
            | Plain \<Rightarrow> c # squeeze AfterSlash cs)
      else c # squeeze (if c = CHR '':'' then AfterColon else Plain) cs)"

text \<open>
  Modelled from the spec: the package \<open>url-join\<close> is not part of the sources.
  The specification says that joining puts the base origin, the base path and the
  per-capability path together, normalizes redundant path separators and does
  not percent-encode the placeholder braces.  So: the parts are put together with
  a slash between them, and the separators of the result are normalized.  No
  character other than a slash is added, removed or rewritten.
\<close>

definition urljoin :: "string list \<Rightarrow> string" where
  "urljoin parts = squeeze Plain (joinWith ''/'' parts)"

text \<open>Lines 26 to 28: \<open>joinUrls\<close> hands its arguments to \<open>urljoin\<close>.\<close>

definition joinUrls :: "string list \<Rightarrow> string" where
  "joinUrls parts = urljoin parts"

subsection \<open>validateBaseUrl\<close>

definition isDigit :: "char \<Rightarrow> bool" where
  "isDigit c = (c \<in> set ''0123456789'')"

text \<open>
  The test \<open>/^locahost:?\d*$/.test(url.hostname)\<close>: the eight characters
  \<open>locahost\<close>, then at most one colon, then digits up to the end.
\<close>

definition locahostPattern :: "string \<Rightarrow> bool" where
  "locahostPattern h =
     (take 8 h = ''locahost'' \<and>
      (case drop 8 h of
         [] \<Rightarrow> True
       | c # cs \<Rightarrow> if c = CHR '':'' then list_all isDigit cs else list_all isDigit (c # cs)))"

definition sslWarning :: string where
  "sslWarning = ''Paymail should always use ssl on production''"

text \<open>
  Lines 30 to 40.
  The \<open>try\<close> block parses the string and warns; the \<open>catch\<close> block throws a new
  error whose message ends with the string that was passed in (the assignment to
  \<open>url\<close> did not happen when the constructor threw) and hands the caught error
  to \<open>Error\<close> as its second argument.
\<close>

definition validateBaseUrl :: "env \<Rightarrow> string \<Rightarrow> world \<Rightarrow> (js_error + url) \<times> world" where
  "validateBaseUrl e u w =
     (case parseURL e u of
        Inr parsed \<Rightarrow>
          (Inr parsed,
           if protocol parsed \<noteq> ''https:'' \<and> locahostPattern (hostname parsed)
           then consoleWarn sslWarning w else w)
      | Inl err \<Rightarrow> (Inl (newError (''Invalid base url: '' @ u) err), w))"

subsection \<open>The sub-protocols\<close>

text \<open>
  The key each sub-protocol's callback writes: two literal property names, six
  members of \<open>CapabilityCodes\<close>.
\<close>

fun capKey :: "env \<Rightarrow> subprotocol \<Rightarrow> string" where
  "capKey e Identity = ''pki''"
| "capKey e GetPaymentDestination = ''paymentDestination''"
| "capKey e VerifyPubkey = code_verifyPublicKeyOwner (capabilityCodes e)"
| "capKey e PublicProfile = code_publicProfile (capabilityCodes e)"
| "capKey e ReceiveTransaction = code_receiveTransaction (capabilityCodes e)"
| "capKey e P2pPaymentDestination = code_p2pPaymentDestination (capabilityCodes e)"
| "capKey e P2pPaymentDestinationToken =
     code_p2pPaymentDestinationWithTokensSupport (capabilityCodes e)"
| "capKey e AssetInformation = code_assetInformation (capabilityCodes e)"

text \<open>
  The path each callback joins to the base URL and the base route.  (The string
  literals of the source are written here in two pieces, cut after the at sign.)
\<close>

fun capPath :: "subprotocol \<Rightarrow> string" where
  "capPath Identity = ''/id/{alias}@'' @ ''{domain.tld}''"
| "capPath GetPaymentDestination = ''/address/{alias}@'' @ ''{domain.tld}''"
| "capPath VerifyPubkey = ''/verifypubkey/{alias}@'' @ ''{domain.tld}/{pubkey}''"
| "capPath PublicProfile = ''/public-profile/{alias}@'' @ ''{domain.tld}''"
| "capPath ReceiveTransaction = ''/receive-transaction/{alias}@'' @ ''{domain.tld}''"
| "capPath P2pPaymentDestination = ''/p2p-payment-destination/{alias}@'' @ ''{domain.tld}''"
| "capPath P2pPaymentDestinationToken =
     ''/p2p-payment-destination-tokens-support/{alias}@'' @ ''{domain.tld}''"
| "capPath AssetInformation = ''/asset/{alias}@'' @ ''{domain.tld}''"

definition alphaWarning :: string where
  "alphaWarning =
     ''This feature is in alpha state. Paymail profile protocol is still being discussed.''"

definition subProtocolEnabled :: "env \<Rightarrow> config \<Rightarrow> subprotocol \<Rightarrow> bool" where
  "subProtocolEnabled e cfg p =
     list_all (\<lambda>name. name \<in> set (callbacks cfg)) (requiredCallbacks e p)"

text \<open>
  Modelled from the spec: the registrars \<open>buildIdentityRouter\<close>,
  \<open>buildGetPaymentDestinationRouter\<close>, \<open>buildVerifyPubkeyRouter\<close>,
  \<open>buildPublicProfileRouter\<close>, \<open>buildReceiveTransactionRouter\<close>,
  \<open>buildP2pPaymentDestinationRouter\<close>, \<open>buildP2pPaymentDestinationTokenRouter\<close>
  and \<open>buildAssetInformationRouter\<close> are required from sibling modules that are
  not part of the sources.  The specification says that a registrar decides from
  the configuration whether its sub-protocol is enabled (its required callbacks
  are present), and if so builds the request handler and calls the callback it
  was given exactly once with it; otherwise it does nothing.
\<close>

definition registrar ::
  "env \<Rightarrow> subprotocol \<Rightarrow> config \<Rightarrow> (handler \<Rightarrow> 's \<Rightarrow> 's) \<Rightarrow> 's \<Rightarrow> 's" where
  "registrar e p cfg ifPresent s =
     (if subProtocolEnabled e cfg p then ifPresent (SubRouter p) s else s)"

text \<open>
  Lines 86 to 126, one callback for each registrar.
  The callback \<open>buildPaymailRouter\<close> hands to the registrar of sub-protocol \<open>p\<close>:
  it adds the router to \<open>apiRouter\<close> and writes the URL template under the
  sub-protocol's key.  The callback of the public profile warns first.
\<close>

definition onMounted ::
  "env \<Rightarrow> url \<Rightarrow> config \<Rightarrow> nat \<Rightarrow> subprotocol \<Rightarrow> handler \<Rightarrow>
     handler list \<times> world \<Rightarrow> handler list \<times> world" where
  "onMounted e baseUrl cfg caps p r s =
     (case s of (apiRouter, w) \<Rightarrow>
        (apiRouter @ [r],
         assignProp caps (capKey e p)
           (CapString (joinUrls [href baseUrl, getBaseRoute cfg, capPath p]))
           (if p = PublicProfile then consoleWarn alphaWarning w else w)))"

definition subProtocolSequence :: "subprotocol list" where
  "subProtocolSequence =
     [Identity, GetPaymentDestination, VerifyPubkey, PublicProfile, ReceiveTransaction,
      P2pPaymentDestination, P2pPaymentDestinationToken, AssetInformation]"

subsection \<open>The discovery endpoint\<close>

record discovery =
  bsvalias :: string
  docCapabilities :: js_object

record response =
  resType :: string
  resBody :: discovery

record request =
  reqMethod :: string
  reqPath :: string
  reqBody :: string

definition wellKnownPath :: string where
  "wellKnownPath = ''/.well-known/bsvalias''"

text \<open>
  Lines 132 to 138.
  The handler of the discovery route: it sets the content type and sends the
  version together with the capability object its closure refers to, read at the
  time of the request.
\<close>

definition wellKnownHandler :: "nat \<Rightarrow> request \<Rightarrow> world \<Rightarrow> response \<times> world" where
  "wellKnownHandler caps req w =
     (\<lparr>resType = ''application/json'',
       resBody = \<lparr>bsvalias = ''1.0'', docCapabilities = heap w caps\<rparr>\<rparr>, w)"

fun runEndpoint :: "endpoint \<Rightarrow> request \<Rightarrow> world \<Rightarrow> response \<times> world" where
  "runEndpoint (WellKnown caps) req w = wellKnownHandler caps req w"

text \<open>
  The route a router has registered for GET requests of a path (the first
  \<open>GetRoute\<close> layer installed for it), and what that route answers to a request
  that has come as far as the route.  Whether a request comes that far is decided
  by the layers installed before the route: see \<open>dispatch\<close> below.
\<close>

fun routeGet :: "router \<Rightarrow> string \<Rightarrow> endpoint option" where
  "routeGet [] path = None"
| "routeGet (GetRoute p ep # rest) path = (if p = path then Some ep else routeGet rest path)"
| "routeGet (s # rest) path = routeGet rest path"

definition handleGet :: "router \<Rightarrow> request \<Rightarrow> world \<Rightarrow> (response \<times> world) option" where
  "handleGet r req w =
     (if reqMethod req = ''GET''
      then (case routeGet r (reqPath req) of
              None \<Rightarrow> None
            | Some ep \<Rightarrow> Some (runEndpoint ep req w))
      else None)"

text \<open>
  Express hands an error raised in layer \<open>i\<close> to the first error-handling layer
  installed after it.
\<close>

fun firstErrorStage :: "router \<Rightarrow> nat option" where
  "firstErrorStage [] = None"
| "firstErrorStage (ErrorStage h # rest) = Some h"
| "firstErrorStage (s # rest) = firstErrorStage rest"

definition errorTarget :: "router \<Rightarrow> nat \<Rightarrow> nat option" where
  "errorTarget r i = firstErrorStage (drop (Suc i) r)"

subsection \<open>A request on its way through the stack\<close>

text \<open>
  What a middleware does with a request: it passes it on, answers it itself, or
  raises an error.  The JSON body parser, the cross-origin middleware and the
  routers of the sub-protocols are not part of the sources; what each does with
  a request is a parameter.  (That the body parser stores the parsed body in the
  request and that the cross-origin middleware adds headers to the response is
  left out: the discovery handler reads neither, and a response is modelled by
  its content type and body.)
\<close>

datatype mw_result = PassOn | Reply response | Fail js_error

record collaborators =
  runBodyParser :: "js_options \<Rightarrow> request \<Rightarrow> mw_result"
  runCors :: "js_options \<Rightarrow> request \<Rightarrow> mw_result"
  runApi :: "string \<Rightarrow> handler list \<Rightarrow> request \<Rightarrow> mw_result"

text \<open>
  How a request ends: with a response, in the hands of an error handler together
  with the error, or with no layer left (Express then answers 404, or 500 for an
  error).
\<close>

datatype served = Answered response | ToErrorHandler nat js_error | Unhandled | UnhandledError js_error

definition raiseError :: "router \<Rightarrow> js_error \<Rightarrow> served" where
  "raiseError rest err =
     (case firstErrorStage rest of None \<Rightarrow> UnhandledError err | Some h \<Rightarrow> ToErrorHandler h err)"

definition afterMiddleware ::
  "mw_result \<Rightarrow> router \<Rightarrow> world \<Rightarrow> served \<times> world \<Rightarrow> served \<times> world" where
  "afterMiddleware res rest w continue =
     (case res of
        PassOn \<Rightarrow> continue
      | Reply resp \<Rightarrow> (Answered resp, w)
      | Fail err \<Rightarrow> (raiseError rest err, w))"

text \<open>
  Express runs the layers of the stack in the order they were installed.  A
  layer that passes the request on hands it to the next layer; an error goes to
  the first error-handling layer further down; an error handler is stepped over
  as long as there is no error.  A GET route answers the requests with its method
  and path.  (Express also lets such a route answer HEAD requests and paths that
  differ in case or by a trailing slash; the results below speak of GET requests
  for the path as written.)
\<close>

fun dispatch :: "collaborators \<Rightarrow> router \<Rightarrow> request \<Rightarrow> world \<Rightarrow> served \<times> world" where
  "dispatch mw [] req w = (Unhandled, w)"
| "dispatch mw (BodyParserJson opts # rest) req w =
     afterMiddleware (runBodyParser mw opts req) rest w (dispatch mw rest req w)"
| "dispatch mw (Cors opts # rest) req w =
     afterMiddleware (runCors mw opts req) rest w (dispatch mw rest req w)"
| "dispatch mw (GetRoute p ep # rest) req w =
     (if reqMethod req = ''GET'' \<and> reqPath req = p
      then (case runEndpoint ep req w of (resp, w') \<Rightarrow> (Answered resp, w'))
      else dispatch mw rest req w)"
| "dispatch mw (Mount path api # rest) req w =
     afterMiddleware (runApi mw path api req) rest w (dispatch mw rest req w)"
| "dispatch mw (ErrorStage h # rest) req w = dispatch mw rest req w"

subsection \<open>buildPaymailRouter\<close>

definition bodyParserStage :: "config \<Rightarrow> stage" where
  "bodyParserStage cfg =
     BodyParserJson
       (setOption ''type'' ''application/json''
          (case bodyParserConfig cfg of None \<Rightarrow> [] | Some c \<Rightarrow> c))"

definition corsStage :: "config \<Rightarrow> stage" where
  "corsStage cfg = Cors (case corsConfig cfg of None \<Rightarrow> [] | Some c \<Rightarrow> c)"

text \<open>
  Lines 72 to 145, in the order of the source: the body parser is installed
  (line 74); the base URL is validated, and a failure ends the build (line 76);
  the cross-origin middleware is installed if \<open>useCors\<close> is set (lines 78 to 80);
  the capability object is the caller's, or a new one (line 82); the
  sender-validation flag is written (line 84); the eight registrars run, each
  with its callback (lines 86 to 126); the three fixed entries are written (lines
  128 to 130); the discovery route (line 132), the sub-protocol routers under the
  base route (line 140) and the error handler (line 142) are installed.
\<close>

definition buildPaymailRouter ::
  "env \<Rightarrow> string \<Rightarrow> config \<Rightarrow> world \<Rightarrow> (js_error + router) \<times> world" where
  "buildPaymailRouter e baseUrl cfg w0 =
     (let baseRouter0 = routerUse (bodyParserStage cfg) [] in
      case validateBaseUrl e baseUrl w0 of
        (Inl err, w1) \<Rightarrow> (Inl err, w1)
      | (Inr parsed, w1) \<Rightarrow>
          (let baseRouter1 =
                 (if useCors cfg then routerUse (corsStage cfg) baseRouter0 else baseRouter0);
               (caps, w2) =
                 (case capabilities cfg of Some a \<Rightarrow> (a, w1) | None \<Rightarrow> newObject w1);
               w3 = assignProp caps (code_requestSenderValidation (capabilityCodes e))
                      (CapBool (requestSenderValidation cfg = Some True)) w2;
               (apiRouter, w4) =
                 fold (\<lambda>p. registrar e p cfg (onMounted e parsed cfg caps p))
                   subProtocolSequence ([], w3);
               w5 = assignProp caps ''userDomain''
                      (CapString (joinUrls [href parsed, getBaseRoute cfg,
                         ''/oauth/{user}@'' @ ''{domain.tld}''])) w4;
               w6 = assignProp caps ''userDomainResponse''
                      (CapString (joinUrls [href parsed, getBaseRoute cfg,
                         ''/oauth/response/{app}@'' @ ''{domain.tld}''])) w5;
               w7 = assignProp caps ''userInfo''
                      (CapString (joinUrls [href parsed, getBaseRoute cfg,
                         ''/payauth/userinfo/{user}@'' @ ''{domain.tld}''])) w6;
               baseRouter2 = routerUse (GetRoute wellKnownPath (WellKnown caps)) baseRouter1;
               baseRouter3 = routerUse (Mount (getBaseRoute cfg) apiRouter) baseRouter2;
               baseRouter4 = routerUse (ErrorStage (errorHandler cfg)) baseRouter3
           in (Inr baseRouter4, w7)))"

section \<open>Notions used to state the results\<close>

subsection \<open>What the build leaves behind\<close>

text \<open>
  The address of the capability object the router serves, and the entries that
  object holds before \<open>buildPaymailRouter\<close> writes to it: the caller's object
  when \<open>config.capabilities\<close> is set, a fresh empty object otherwise.
\<close>

definition capsAddr :: "config \<Rightarrow> world \<Rightarrow> nat" where
  "capsAddr cfg w = (case capabilities cfg of Some a \<Rightarrow> a | None \<Rightarrow> nextAddr w)"

definition initialObject :: "config \<Rightarrow> world \<Rightarrow> js_object" where
  "initialObject cfg w = (case capabilities cfg of Some a \<Rightarrow> heap w a | None \<Rightarrow> [])"

definition template :: "url \<Rightarrow> config \<Rightarrow> string \<Rightarrow> cap_value" where
  "template u cfg path = CapString (joinUrls [href u, getBaseRoute cfg, path])"

text \<open>The capability object after the registrars of \<open>ps\<close> ran over it, in order.\<close>

fun afterRegistrars ::
  "env \<Rightarrow> url \<Rightarrow> config \<Rightarrow> subprotocol list \<Rightarrow> js_object \<Rightarrow> js_object" where
  "afterRegistrars e u cfg [] obj = obj"
| "afterRegistrars e u cfg (p # ps) obj =
     afterRegistrars e u cfg ps
       (if subProtocolEnabled e cfg p
        then setProp (capKey e p) (template u cfg (capPath p)) obj else obj)"

definition finalCapabilities :: "env \<Rightarrow> url \<Rightarrow> config \<Rightarrow> js_object \<Rightarrow> js_object" where
  "finalCapabilities e u cfg obj =
     setProp ''userInfo'' (template u cfg (''/payauth/userinfo/{user}@'' @ ''{domain.tld}''))
       (setProp ''userDomainResponse'' (template u cfg (''/oauth/response/{app}@'' @ ''{domain.tld}''))
          (setProp ''userDomain'' (template u cfg (''/oauth/{user}@'' @ ''{domain.tld}''))
             (afterRegistrars e u cfg subProtocolSequence
                (setProp (code_requestSenderValidation (capabilityCodes e))
                   (CapBool (requestSenderValidation cfg = Some True)) obj))))"

definition enabledSubProtocols :: "env \<Rightarrow> config \<Rightarrow> subprotocol list" where
  "enabledSubProtocols e cfg = filter (subProtocolEnabled e cfg) subProtocolSequence"

fun alphaWarnings :: "env \<Rightarrow> config \<Rightarrow> subprotocol list \<Rightarrow> string list" where
  "alphaWarnings e cfg [] = []"
| "alphaWarnings e cfg (p # ps) =
     (if subProtocolEnabled e cfg p \<and> p = PublicProfile then [alphaWarning] else [])
     @ alphaWarnings e cfg ps"

text \<open>
  The keys the build writes, in the order it writes them: the sender-validation
  code, the key of every enabled sub-protocol, the three fixed keys.
\<close>

definition expectedKeys :: "env \<Rightarrow> config \<Rightarrow> string list" where
  "expectedKeys e cfg =
     code_requestSenderValidation (capabilityCodes e)
     # map (capKey e) (enabledSubProtocols e cfg)
     @ [''userDomain'', ''userDomainResponse'', ''userInfo'']"

text \<open>
  The twelve keys the module can write are pairwise distinct: what the
  specification requires of the capability codes (each sub-protocol owns its key).
\<close>

definition keysDistinct :: "env \<Rightarrow> bool" where
  "keysDistinct e =
     distinct (code_requestSenderValidation (capabilityCodes e)
               # ''userDomain'' # ''userDomainResponse'' # ''userInfo''
               # map (capKey e) subProtocolSequence)"

text \<open>The stack of the router a successful build returns.\<close>

definition builtRouter :: "env \<Rightarrow> config \<Rightarrow> world \<Rightarrow> router" where
  "builtRouter e cfg w =
     bodyParserStage cfg # (if useCors cfg then [corsStage cfg] else [])
     @ [GetRoute wellKnownPath (WellKnown (capsAddr cfg w)),
        Mount (getBaseRoute cfg) (map SubRouter (enabledSubProtocols e cfg)),
        ErrorStage (errorHandler cfg)]"

subsection \<open>What a client sees\<close>

definition discoveryRequest :: request where
  "discoveryRequest = \<lparr>reqMethod = ''GET'', reqPath = wellKnownPath, reqBody = []\<rparr>"

definition servedCapabilities :: "router \<Rightarrow> world \<Rightarrow> js_object option" where
  "servedCapabilities r w =
     (case handleGet r discoveryRequest w of
        None \<Rightarrow> None
      | Some (resp, w') \<Rightarrow> Some (docCapabilities (resBody resp)))"

fun mountedHandlers :: "router \<Rightarrow> handler list" where
  "mountedHandlers [] = []"
| "mountedHandlers (Mount path api # rest) = api @ mountedHandlers rest"
| "mountedHandlers (s # rest) = mountedHandlers rest"

text \<open>
  The capability object in the discovery document of a router, asked right after
  it was built.
\<close>

definition buildAndServe :: "env \<Rightarrow> string \<Rightarrow> config \<Rightarrow> world \<Rightarrow> js_object option" where
  "buildAndServe e b cfg w =
     (case buildPaymailRouter e b cfg w of
        (Inl err, w') \<Rightarrow> None
      | (Inr r, w') \<Rightarrow> servedCapabilities r w')"

subsection \<open>Templates\<close>




subsection \<open>Example inputs\<close>

text \<open>
  What the runtime's \<open>URL\<close> constructor answers on the strings the examples
  use; a string without a scheme, like \<open>example.com\<close>, is rejected.
\<close>

definition exampleParse :: "string \<Rightarrow> js_error + url" where
  "exampleParse s =
     (if s = ''https://example.com''
      then Inr \<lparr>protocol = ''https:'', hostname = ''example.com'',
                href = ''https://example.com/''\<rparr>
      else if s = ''https://example.com/app''
      then Inr \<lparr>protocol = ''https:'', hostname = ''example.com'',
                href = ''https://example.com/app''\<rparr>
      else if s = ''http://localhost:3000''
      then Inr \<lparr>protocol = ''http:'', hostname = ''localhost'',
                href = ''http://localhost:3000/''\<rparr>
      else if s = ''http://locahost:3000''
      then Inr \<lparr>protocol = ''http:'', hostname = ''locahost'',
                href = ''http://locahost:3000/''\<rparr>
      else Inl (JsError ''Invalid URL'' None))"

definition exampleCodes :: capability_codes where
  "exampleCodes =
     \<lparr>code_requestSenderValidation = ''requestSenderValidation'',
      code_verifyPublicKeyOwner = ''verifyPublicKeyOwner'',
      code_publicProfile = ''publicProfile'',
      code_receiveTransaction = ''receiveTransaction'',
      code_p2pPaymentDestination = ''p2pPaymentDestination'',
      code_p2pPaymentDestinationWithTokensSupport = ''p2pPaymentDestinationWithTokensSupport'',
      code_assetInformation = ''assetInformation''\<rparr>"

text \<open>
  The callbacks the first three registrars require are the ones the module
  documents; the other names stand for what the remaining registrars require.
\<close>

fun exampleRequired :: "subprotocol \<Rightarrow> string list" where
  "exampleRequired Identity = [''getIdentityKey'']"
| "exampleRequired GetPaymentDestination = [''getPaymentDestination'']"
| "exampleRequired VerifyPubkey = [''verifyPublicKeyOwner'']"
| "exampleRequired PublicProfile = [''getPublicProfile'']"
| "exampleRequired ReceiveTransaction = [''receiveTransaction'']"
| "exampleRequired P2pPaymentDestination = [''getP2pPaymentDestination'']"
| "exampleRequired P2pPaymentDestinationToken = [''getP2pPaymentDestinationWithTokens'']"
| "exampleRequired AssetInformation = [''getAssetInformation'']"

definition exampleEnv :: env where
  "exampleEnv =
     \<lparr>parseURL = exampleParse, capabilityCodes = exampleCodes,
      requiredCallbacks = exampleRequired\<rparr>"

definition emptyWorld :: world where
  "emptyWorld = \<lparr>heap = (\<lambda>a. []), nextAddr = 0, console = []\<rparr>"

text \<open>Only identity lookup is enabled; everything else is left at its default.\<close>

definition identityConfig :: config where
  "identityConfig =
     \<lparr>basePath = None, useCors = True, corsConfig = Some [], bodyParserConfig = Some [],
      requestSenderValidation = None, capabilities = None,
      callbacks = [''getIdentityKey''], errorHandler = 0\<rparr>"


text \<open>
  Collaborators for the examples: a body parser that rejects the body \<open>{bad\<close>
  (a request that announces JSON and sends something that is not) and passes
  every other request on, and a cross-origin middleware and sub-protocol
  routers that pass every request on.
\<close>

definition exampleCollaborators :: collaborators where
  "exampleCollaborators =
     \<lparr>runBodyParser =
        (\<lambda>opts req. if reqBody req = ''{bad''
                     then Fail (JsError ''Unexpected token b in JSON at position 1'' None)
                     else PassOn),
      runCors = (\<lambda>opts req. PassOn),
      runApi = (\<lambda>path api req. PassOn)\<rparr>"

definition badJsonRequest :: request where
  "badJsonRequest = \<lparr>reqMethod = ''GET'', reqPath = wellKnownPath, reqBody = ''{bad''\<rparr>"

text \<open>
  A caller that hands in its own capability object, with two entries of its own,
  and sets no callback at all.
\<close>

definition seededWorld :: world where
  "seededWorld =
     \<lparr>heap = (\<lambda>a. if a = 0
                    then [(''pki'', CapString (''https://other.example/id/{alias}@'' @ ''{domain.tld}'')),
                          (''extra'', CapBool True)]
                    else []),
      nextAddr = 1, console = []\<rparr>"

definition seededConfig :: config where
  "seededConfig =
     \<lparr>basePath = None, useCors = False, corsConfig = None, bodyParserConfig = None,
      requestSenderValidation = None, capabilities = Some 0,
      callbacks = [], errorHandler = 0\<rparr>"

section \<open>Properties of the operations\<close>

subsection \<open>Assigning to a capability object\<close>

lemma ownKeys_setProp:
  "ownKeys (setProp k v obj) = (if k \<in> set (ownKeys obj) then ownKeys obj else ownKeys obj @ [k])"
  by (induction obj) (force simp: ownKeys_def)+

lemma set_ownKeys_setProp: "set (ownKeys (setProp k v obj)) = insert k (set (ownKeys obj))"
  by (auto simp: ownKeys_setProp)

lemma distinct_setProp: "distinct (ownKeys obj) \<Longrightarrow> distinct (ownKeys (setProp k v obj))"
  by (simp add: ownKeys_setProp)

lemma getProp_setProp:
  "getProp (setProp k v obj) k' = (if k' = k then Some v else getProp obj k')"
  by (induction obj) (auto simp: getProp_def)

subsection \<open>The registrars\<close>

text \<open>
  The object after the registrars ran: its keys, and what is stored under them.
\<close>

lemma ownKeys_afterRegistrars:
  "distinct (map (capKey e) ps) \<Longrightarrow> set (map (capKey e) ps) \<inter> set (ownKeys obj) = {} \<Longrightarrow>
   ownKeys (afterRegistrars e u cfg ps obj) =
     ownKeys obj @ map (capKey e) (filter (subProtocolEnabled e cfg) ps)"
proof (induction ps arbitrary: obj)
  case Nil
  then show ?case by simp
next
  case (Cons p ps)
  then show ?case
    by (auto simp: ownKeys_setProp)
qed

lemma set_ownKeys_afterRegistrars:
  "set (ownKeys (afterRegistrars e u cfg ps obj)) =
     set (ownKeys obj) \<union> capKey e ` {p \<in> set ps. subProtocolEnabled e cfg p}"
  by (induction ps arbitrary: obj) (auto simp: set_ownKeys_setProp)

lemma distinct_afterRegistrars:
  "distinct (ownKeys obj) \<Longrightarrow> distinct (ownKeys (afterRegistrars e u cfg ps obj))"
  by (induction ps arbitrary: obj) (auto simp: distinct_setProp)

lemma getProp_afterRegistrars_other:
  "k \<notin> capKey e ` set ps \<Longrightarrow> getProp (afterRegistrars e u cfg ps obj) k = getProp obj k"
  by (induction ps arbitrary: obj) (auto simp: getProp_setProp)

lemma getProp_afterRegistrars_enabled:
  "distinct (map (capKey e) ps) \<Longrightarrow> p \<in> set ps \<Longrightarrow> subProtocolEnabled e cfg p \<Longrightarrow>
   getProp (afterRegistrars e u cfg ps obj) (capKey e p) = Some (template u cfg (capPath p))"
proof (induction ps arbitrary: obj)
  case Nil
  then show ?case by simp
next
  case (Cons q ps)
  show ?case
  proof (cases "p = q")
    case True
    with Cons.prems have "capKey e p \<notin> capKey e ` set ps" by auto
    with True Cons.prems show ?thesis
      by (simp add: getProp_afterRegistrars_other getProp_setProp)
  next
    case False
    with Cons show ?thesis by auto
  qed
qed

lemma registrar_step:
  "registrar e p cfg (onMounted e u cfg a p) (api, w) =
     (if subProtocolEnabled e cfg p
      then (api @ [SubRouter p],
            w\<lparr>heap := (heap w)(a := setProp (capKey e p) (template u cfg (capPath p)) (heap w a)),
              console := console w @ (if p = PublicProfile then [alphaWarning] else [])\<rparr>)
      else (api, w))"
  by (simp add: registrar_def onMounted_def assignProp_def consoleWarn_def template_def)

lemma fold_registrars:
  "fold (\<lambda>p. registrar e p cfg (onMounted e u cfg a p)) ps (api, w) =
     (api @ map SubRouter (filter (subProtocolEnabled e cfg) ps),
      w\<lparr>heap := (heap w)(a := afterRegistrars e u cfg ps (heap w a)),
        console := console w @ alphaWarnings e cfg ps\<rparr>)"
proof (induction ps arbitrary: api w)
  case Nil
  then show ?case by simp
next
  case (Cons p ps)
  show ?case
    by (auto simp: registrar_step Cons.IH fun_eq_iff)
qed

lemma all_in_sequence: "p \<in> set subProtocolSequence"
  by (cases p) (simp_all add: subProtocolSequence_def)

lemma set_enabledSubProtocols:
  "set (enabledSubProtocols e cfg) = {p. subProtocolEnabled e cfg p}"
  by (auto simp: enabledSubProtocols_def all_in_sequence)

subsection \<open>The result of buildPaymailRouter\<close>

text \<open>
  A build either fails in \<open>validateBaseUrl\<close> and changes nothing, or returns
  \<open>builtRouter\<close> and leaves \<open>finalCapabilities\<close> in the capability object.
\<close>

lemma build_failure:
  "parseURL e b = Inl err \<Longrightarrow>
   buildPaymailRouter e b cfg w = (Inl (JsError (''Invalid base url: '' @ b) (errCause err)), w)"
  by (simp add: buildPaymailRouter_def validateBaseUrl_def newError_def)

lemma errCause_neq_self: "errCause err \<noteq> Some err"
proof (induction err)
  case (JsError msg c)
  show ?case
  proof
    assume a: "errCause (JsError msg c) = Some (JsError msg c)"
    then have c: "c = Some (JsError msg c)" by simp
    then have "JsError msg c \<in> set_option c" by (metis option.set_intros)
    from JsError [OF this] a show False by simp
  qed
qed

lemma invalid_base_url_fails:
  assumes "parseURL e b = Inl err"
  shows "\<exists>thrown. buildPaymailRouter e b cfg w = (Inl thrown, w) \<and>
           errMessage thrown = ''Invalid base url: '' @ b \<and>
           errCause thrown = errCause err \<and> errCause thrown \<noteq> Some err"
  using build_failure [OF assms, of cfg w] errCause_neq_self [of err] by simp

lemma build_router:
  "parseURL e b = Inr u \<Longrightarrow> fst (buildPaymailRouter e b cfg w) = Inr (builtRouter e cfg w)"
  by (simp add: buildPaymailRouter_def validateBaseUrl_def Let_def fold_registrars
      builtRouter_def routerUse_def capsAddr_def newObject_def enabledSubProtocols_def
      consoleWarn_def
      split: option.splits prod.splits)

lemma build_result:
  "parseURL e b = Inr u \<Longrightarrow>
   \<exists>w'. buildPaymailRouter e b cfg w = (Inr (builtRouter e cfg w), w')"
  using build_router [of e b u cfg w] by (cases "buildPaymailRouter e b cfg w") auto

lemma build_heap:
  "parseURL e b = Inr u \<Longrightarrow>
   heap (snd (buildPaymailRouter e b cfg w)) =
     (heap w)(capsAddr cfg w := finalCapabilities e u cfg (initialObject cfg w))"
  by (auto simp add: buildPaymailRouter_def validateBaseUrl_def Let_def fold_registrars
      capsAddr_def initialObject_def newObject_def assignProp_def finalCapabilities_def
      consoleWarn_def template_def fun_eq_iff
      split: option.splits prod.splits)

lemma build_nextAddr:
  "parseURL e b = Inr u \<Longrightarrow>
   nextAddr (snd (buildPaymailRouter e b cfg w)) =
     (case capabilities cfg of None \<Rightarrow> Suc (nextAddr w) | Some a \<Rightarrow> nextAddr w)"
  by (auto simp add: buildPaymailRouter_def validateBaseUrl_def Let_def fold_registrars
      newObject_def assignProp_def consoleWarn_def
      split: option.splits prod.splits)

lemma build_console:
  "parseURL e b = Inr u \<Longrightarrow>
   console (snd (buildPaymailRouter e b cfg w)) =
     console w
     @ (if protocol u \<noteq> ''https:'' \<and> locahostPattern (hostname u) then [sslWarning] else [])
     @ alphaWarnings e cfg subProtocolSequence"
  by (auto simp add: buildPaymailRouter_def validateBaseUrl_def Let_def fold_registrars
      newObject_def assignProp_def consoleWarn_def
      split: option.splits prod.splits)

lemma build_cases:
  "buildPaymailRouter e b cfg w = (Inr r, w') \<Longrightarrow>
   \<exists>u. parseURL e b = Inr u \<and> r = builtRouter e cfg w \<and>
       heap w' = (heap w)(capsAddr cfg w := finalCapabilities e u cfg (initialObject cfg w))"
proof (cases "parseURL e b")
  case (Inl err)
  assume "buildPaymailRouter e b cfg w = (Inr r, w')"
  with build_failure [OF Inl, of cfg w] show ?thesis by simp
next
  case (Inr u)
  assume b: "buildPaymailRouter e b cfg w = (Inr r, w')"
  with build_router [OF Inr, of cfg w] build_heap [OF Inr, of cfg w] Inr
  show ?thesis by simp
qed

subsection \<open>The router that was built\<close>

lemma routeGet_builtRouter:
  "routeGet (builtRouter e cfg w) wellKnownPath = Some (WellKnown (capsAddr cfg w))"
  by (simp add: builtRouter_def bodyParserStage_def corsStage_def)

lemma handleGet_builtRouter:
  "reqMethod req = ''GET'' \<Longrightarrow> reqPath req = wellKnownPath \<Longrightarrow>
   handleGet (builtRouter e cfg w) req w1 =
     Some (\<lparr>resType = ''application/json'',
            resBody = \<lparr>bsvalias = ''1.0'', docCapabilities = heap w1 (capsAddr cfg w)\<rparr>\<rparr>, w1)"
  by (simp add: handleGet_def routeGet_builtRouter wellKnownHandler_def)

lemma served_builtRouter:
  "servedCapabilities (builtRouter e cfg w) w1 = Some (heap w1 (capsAddr cfg w))"
  by (simp add: servedCapabilities_def discoveryRequest_def handleGet_builtRouter)

lemma buildAndServe_success:
  "parseURL e b = Inr u \<Longrightarrow>
   buildAndServe e b cfg w = Some (finalCapabilities e u cfg (initialObject cfg w))"
proof -
  assume p: "parseURL e b = Inr u"
  obtain w' where w': "buildPaymailRouter e b cfg w = (Inr (builtRouter e cfg w), w')"
    using build_result [OF p] by blast
  with build_heap [OF p, of cfg w] show ?thesis
    by (simp add: buildAndServe_def served_builtRouter)
qed

lemma buildAndServe_eq:
  "buildPaymailRouter e b cfg w = (Inr r, w') \<Longrightarrow> buildAndServe e b cfg w = servedCapabilities r w'"
  by (simp add: buildAndServe_def)

lemma build_served:
  assumes "buildPaymailRouter e b cfg w = (Inr r, w')"
  shows "\<exists>u. parseURL e b = Inr u \<and> r = builtRouter e cfg w \<and>
             servedCapabilities r w' = Some (finalCapabilities e u cfg (initialObject cfg w))"
proof -
  from build_cases [OF assms] obtain u where u: "parseURL e b = Inr u"
    and r: "r = builtRouter e cfg w"
    and h: "heap w' = (heap w)(capsAddr cfg w := finalCapabilities e u cfg (initialObject cfg w))"
    by blast
  from r h have "servedCapabilities r w' = Some (finalCapabilities e u cfg (initialObject cfg w))"
    by (simp add: served_builtRouter)
  with u r show ?thesis by blast
qed

lemma mountedHandlers_builtRouter:
  "mountedHandlers (builtRouter e cfg w) = map SubRouter (enabledSubProtocols e cfg)"
  by (simp add: builtRouter_def bodyParserStage_def corsStage_def)

lemma firstErrorStage_append:
  "(\<forall>h. ErrorStage h \<notin> set xs) \<Longrightarrow> firstErrorStage (xs @ ys) = firstErrorStage ys"
proof (induction xs)
  case Nil
  then show ?case by simp
next
  case (Cons x xs)
  then show ?case by (cases x) auto
qed

lemma builtRouter_front:
  "\<exists>front. builtRouter e cfg w = front @ [ErrorStage (errorHandler cfg)] \<and>
     (\<forall>h. ErrorStage h \<notin> set front) \<and>
     mountedHandlers front = map SubRouter (enabledSubProtocols e cfg)"
  by (rule exI [of _ "bodyParserStage cfg # (if useCors cfg then [corsStage cfg] else [])
       @ [GetRoute wellKnownPath (WellKnown (capsAddr cfg w)),
          Mount (getBaseRoute cfg) (map SubRouter (enabledSubProtocols e cfg))]"])
     (simp add: builtRouter_def bodyParserStage_def corsStage_def)

lemma errorTarget_front:
  assumes "\<forall>h. ErrorStage h \<notin> set front" and "i < length front"
  shows "errorTarget (front @ [ErrorStage eh]) i = Some eh"
proof -
  have "\<forall>h. ErrorStage h \<notin> set (drop (Suc i) front)"
    using assms(1) by (meson in_set_dropD)
  then have "firstErrorStage (drop (Suc i) front @ [ErrorStage eh]) = Some eh"
    by (simp add: firstErrorStage_append)
  with assms(2) show ?thesis by (simp add: errorTarget_def)
qed

subsection \<open>The hostname test\<close>

text \<open>
  The test accepts exactly what the regular expression describes.
\<close>

lemma not_digit_colon: "\<not> isDigit CHR '':''"
  by (simp add: isDigit_def)

lemma locahostPattern_iff:
  "locahostPattern h =
     (\<exists>ds. list_all isDigit ds \<and> (h = ''locahost'' @ ds \<or> h = ''locahost:'' @ ds))"
proof
  assume lp: "locahostPattern h"
  then have tk: "take 8 h = ''locahost''" by (simp add: locahostPattern_def)
  have h: "h = ''locahost'' @ drop 8 h"
    using tk append_take_drop_id [of 8 h] by simp
  show "\<exists>ds. list_all isDigit ds \<and> (h = ''locahost'' @ ds \<or> h = ''locahost:'' @ ds)"
  proof (cases "drop 8 h")
    case Nil
    with h show ?thesis by (intro exI [of _ "[]"]) simp
  next
    case (Cons c cs)
    show ?thesis
    proof (cases "c = CHR '':''")
      case True
      with lp Cons have "list_all isDigit cs" by (simp add: locahostPattern_def)
      moreover from h Cons True have "h = ''locahost:'' @ cs" by simp
      ultimately show ?thesis by blast
    next
      case False
      with lp Cons have "list_all isDigit (c # cs)" by (simp add: locahostPattern_def)
      moreover from h Cons have "h = ''locahost'' @ (c # cs)" by simp
      ultimately show ?thesis by blast
    qed
  qed
next
  assume "\<exists>ds. list_all isDigit ds \<and> (h = ''locahost'' @ ds \<or> h = ''locahost:'' @ ds)"
  then obtain ds where ds: "list_all isDigit ds"
    and h: "h = ''locahost'' @ ds \<or> h = ''locahost:'' @ ds" by blast
  from h show "locahostPattern h"
  proof
    assume "h = ''locahost'' @ ds"
    with ds show ?thesis
      by (cases ds) (auto simp: locahostPattern_def not_digit_colon)
  next
    assume "h = ''locahost:'' @ ds"
    with ds show ?thesis by (simp add: locahostPattern_def)
  qed
qed

lemma localhost_no_match: "\<not> locahostPattern ''localhost''"
  by (simp add: locahostPattern_def)

lemma sslWarning_not_alpha: "sslWarning \<notin> set (alphaWarnings e cfg ps)"
  by (induction ps) (auto simp: sslWarning_def alphaWarning_def)

subsection \<open>The keys of the final capability object\<close>

lemma keysDistinct_sequence:
  "keysDistinct e \<Longrightarrow> distinct (map (capKey e) subProtocolSequence)"
  by (simp add: keysDistinct_def)

lemma keysDistinct_inj: "keysDistinct e \<Longrightarrow> capKey e p = capKey e q \<Longrightarrow> p = q"
  using keysDistinct_sequence [of e] all_in_sequence
  by (metis distinct_map inj_on_def)

lemma keysDistinct_literals:
  assumes "keysDistinct e"
  shows "capKey e p \<noteq> code_requestSenderValidation (capabilityCodes e)"
    and "capKey e p \<noteq> ''userDomain''"
    and "capKey e p \<noteq> ''userDomainResponse''"
    and "capKey e p \<noteq> ''userInfo''"
    and "code_requestSenderValidation (capabilityCodes e) \<noteq> ''userDomain''"
    and "code_requestSenderValidation (capabilityCodes e) \<noteq> ''userDomainResponse''"
    and "code_requestSenderValidation (capabilityCodes e) \<noteq> ''userInfo''"
proof -
  have "capKey e p \<in> capKey e ` set subProtocolSequence"
    using all_in_sequence [of p] by (rule imageI)
  with assms show "capKey e p \<noteq> code_requestSenderValidation (capabilityCodes e)"
    and "capKey e p \<noteq> ''userDomain''"
    and "capKey e p \<noteq> ''userDomainResponse''"
    and "capKey e p \<noteq> ''userInfo''"
    by (auto simp: keysDistinct_def)
  from assms show "code_requestSenderValidation (capabilityCodes e) \<noteq> ''userDomain''"
    and "code_requestSenderValidation (capabilityCodes e) \<noteq> ''userDomainResponse''"
    and "code_requestSenderValidation (capabilityCodes e) \<noteq> ''userInfo''"
    by (auto simp: keysDistinct_def)
qed

lemma keysDistinct_notin:
  assumes "keysDistinct e"
  shows "code_requestSenderValidation (capabilityCodes e) \<notin> capKey e ` A"
    and "''userDomain'' \<notin> capKey e ` A"
    and "''userDomainResponse'' \<notin> capKey e ` A"
    and "''userInfo'' \<notin> capKey e ` A"
proof -
  have k: "k \<noteq> code_requestSenderValidation (capabilityCodes e) \<and> k \<noteq> ''userDomain'' \<and>
           k \<noteq> ''userDomainResponse'' \<and> k \<noteq> ''userInfo''" if "k \<in> capKey e ` A" for k
  proof -
    from that obtain p where "k = capKey e p" by blast
    with keysDistinct_literals(1-4) [OF assms, of p] show ?thesis by simp
  qed
  from k show "code_requestSenderValidation (capabilityCodes e) \<notin> capKey e ` A" by blast
  from k show "''userDomain'' \<notin> capKey e ` A" by blast
  from k show "''userDomainResponse'' \<notin> capKey e ` A" by blast
  from k show "''userInfo'' \<notin> capKey e ` A" by blast
qed

lemma set_expectedKeys:
  "set (expectedKeys e cfg) =
     {code_requestSenderValidation (capabilityCodes e), ''userDomain'', ''userDomainResponse'',
      ''userInfo''} \<union> capKey e ` {p. subProtocolEnabled e cfg p}"
  by (auto simp: expectedKeys_def set_enabledSubProtocols)

lemma expectedKeys_member:
  "keysDistinct e \<Longrightarrow> (capKey e p \<in> set (expectedKeys e cfg)) = subProtocolEnabled e cfg p"
  by (auto simp: set_expectedKeys keysDistinct_literals dest: keysDistinct_inj)

lemma set_ownKeys_final:
  "set (ownKeys (finalCapabilities e u cfg obj)) = set (ownKeys obj) \<union> set (expectedKeys e cfg)"
  by (auto simp: finalCapabilities_def set_ownKeys_setProp set_ownKeys_afterRegistrars
      set_expectedKeys all_in_sequence)

lemma distinct_final:
  "distinct (ownKeys obj) \<Longrightarrow> distinct (ownKeys (finalCapabilities e u cfg obj))"
  by (simp add: finalCapabilities_def distinct_setProp distinct_afterRegistrars)

lemma ownKeys_final_fresh:
  assumes "keysDistinct e"
  shows "ownKeys (finalCapabilities e u cfg []) = expectedKeys e cfg"
proof -
  let ?rsv = "code_requestSenderValidation (capabilityCodes e)"
  let ?v = "CapBool (requestSenderValidation cfg = Some True)"
  have k1: "ownKeys (afterRegistrars e u cfg subProtocolSequence [(?rsv, ?v)]) =
      ?rsv # map (capKey e) (enabledSubProtocols e cfg)"
  proof -
    have d: "set (map (capKey e) subProtocolSequence) \<inter> set (ownKeys [(?rsv, ?v)]) = {}"
      using keysDistinct_notin(1) [OF assms, of "set subProtocolSequence"]
      by (simp add: ownKeys_def)
    from ownKeys_afterRegistrars [OF keysDistinct_sequence [OF assms] d, of u cfg]
    show ?thesis by (simp add: ownKeys_def enabledSubProtocols_def)
  qed
  note m = keysDistinct_notin(2-4) [OF assms, of "set (enabledSubProtocols e cfg)"]
  show ?thesis
    using keysDistinct_literals(5-7) [OF assms] m
    by (simp add: finalCapabilities_def ownKeys_setProp k1 expectedKeys_def)
qed

lemma getProp_final_rsv:
  assumes "keysDistinct e"
  shows "getProp (finalCapabilities e u cfg obj) (code_requestSenderValidation (capabilityCodes e))
           = Some (CapBool (requestSenderValidation cfg = Some True))"
  using keysDistinct_literals(5-7) [OF assms]
    keysDistinct_notin(1) [OF assms, of "set subProtocolSequence"]
  by (simp add: finalCapabilities_def getProp_setProp getProp_afterRegistrars_other)

lemma getProp_final_enabled:
  assumes "keysDistinct e" and "subProtocolEnabled e cfg p"
  shows "getProp (finalCapabilities e u cfg obj) (capKey e p) = Some (template u cfg (capPath p))"
  using keysDistinct_literals(2-4) [OF assms(1), of p]
    getProp_afterRegistrars_enabled [OF keysDistinct_sequence [OF assms(1)] all_in_sequence assms(2)]
  by (simp add: finalCapabilities_def getProp_setProp)


subsection \<open>Joined URLs\<close>







subsection \<open>Occurrences\<close>






subsection \<open>Templates\<close>









subsection \<open>Requests for the discovery document\<close>

text \<open>
  A GET request for the discovery path meets the body parser, then the
  cross-origin middleware if it is installed, then the route.
\<close>

lemma dispatch_builtRouter:
  assumes "reqMethod req = ''GET''" and "reqPath req = wellKnownPath"
  shows "dispatch mw (builtRouter e cfg w) req w1 =
     (case runBodyParser mw
             (setOption ''type'' ''application/json''
                (case bodyParserConfig cfg of None \<Rightarrow> [] | Some c \<Rightarrow> c)) req of
        Fail err \<Rightarrow> (ToErrorHandler (errorHandler cfg) err, w1)
      | Reply resp \<Rightarrow> (Answered resp, w1)
      | PassOn \<Rightarrow>
          (if useCors cfg
           then (case runCors mw (case corsConfig cfg of None \<Rightarrow> [] | Some c \<Rightarrow> c) req of
                   Fail err \<Rightarrow> (ToErrorHandler (errorHandler cfg) err, w1)
                 | Reply resp \<Rightarrow> (Answered resp, w1)
                 | PassOn \<Rightarrow> (Answered (fst (wellKnownHandler (capsAddr cfg w) req w1)), w1))
           else (Answered (fst (wellKnownHandler (capsAddr cfg w) req w1)), w1)))"
  using assms
  by (simp add: builtRouter_def bodyParserStage_def corsStage_def afterMiddleware_def
      raiseError_def wellKnownHandler_def split: mw_result.splits)

lemma dispatch_builtRouter_world:
  assumes "reqMethod req = ''GET''" and "reqPath req = wellKnownPath"
  shows "snd (dispatch mw (builtRouter e cfg w) req w1) = w1"
  unfolding dispatch_builtRouter [OF assms]
  by (simp split: mw_result.splits)

text \<open>
  A request that the layers before the route pass on gets what \<open>handleGet\<close> says
  the route answers.
\<close>

lemma dispatch_reaches_route:
  assumes "reqMethod req = ''GET''" and "reqPath req = wellKnownPath"
    and "runBodyParser mw
           (setOption ''type'' ''application/json''
              (case bodyParserConfig cfg of None \<Rightarrow> [] | Some c \<Rightarrow> c)) req = PassOn"
    and "useCors cfg \<longrightarrow>
         runCors mw (case corsConfig cfg of None \<Rightarrow> [] | Some c \<Rightarrow> c) req = PassOn"
  shows "handleGet (builtRouter e cfg w) req w1 = Some (resp, w2) \<longleftrightarrow>
         dispatch mw (builtRouter e cfg w) req w1 = (Answered resp, w2)"
  unfolding dispatch_builtRouter [OF assms(1,2)] handleGet_builtRouter [OF assms(1,2)]
  using assms(3,4) by (auto simp: wellKnownHandler_def)


subsection \<open>The examples\<close>

lemma example_parse:
  "parseURL exampleEnv ''https://example.com''
     = Inr \<lparr>protocol = ''https:'', hostname = ''example.com'', href = ''https://example.com/''\<rparr>"
  by (simp add: exampleEnv_def exampleParse_def)

lemma example_keysDistinct: "keysDistinct exampleEnv"
  by (simp add: keysDistinct_def exampleEnv_def exampleCodes_def subProtocolSequence_def)

lemma identity_enabled:
  "subProtocolEnabled exampleEnv identityConfig p = (p = Identity)"
  by (cases p) (simp_all add: subProtocolEnabled_def exampleEnv_def identityConfig_def)

lemma seeded_enabled: "\<not> subProtocolEnabled exampleEnv seededConfig p"
  by (cases p) (simp_all add: subProtocolEnabled_def exampleEnv_def seededConfig_def)

lemma identity_final:
  "finalCapabilities exampleEnv
     \<lparr>protocol = ''https:'', hostname = ''example.com'', href = ''https://example.com/''\<rparr>
     identityConfig [] =
   [(''requestSenderValidation'', CapBool False),
    (''pki'', CapString (''https://example.com/id/{alias}@'' @ ''{domain.tld}'')),
    (''userDomain'', CapString (''https://example.com/oauth/{user}@'' @ ''{domain.tld}'')),
    (''userDomainResponse'', CapString (''https://example.com/oauth/response/{app}@'' @ ''{domain.tld}'')),
    (''userInfo'', CapString (''https://example.com/payauth/userinfo/{user}@'' @ ''{domain.tld}''))]"
  by code_simp

lemma identity_served:
  "buildAndServe exampleEnv ''https://example.com'' identityConfig emptyWorld =
   Some [(''requestSenderValidation'', CapBool False),
    (''pki'', CapString (''https://example.com/id/{alias}@'' @ ''{domain.tld}'')),
    (''userDomain'', CapString (''https://example.com/oauth/{user}@'' @ ''{domain.tld}'')),
    (''userDomainResponse'', CapString (''https://example.com/oauth/response/{app}@'' @ ''{domain.tld}'')),
    (''userInfo'', CapString (''https://example.com/payauth/userinfo/{user}@'' @ ''{domain.tld}''))]"
proof -
  have c: "initialObject identityConfig emptyWorld = []"
    by (simp add: initialObject_def identityConfig_def)
  show ?thesis
    unfolding buildAndServe_success [OF example_parse] c identity_final by simp
qed

lemma seeded_heap0:
  "heap seededWorld 0 =
     [(''pki'', CapString (''https://other.example/id/{alias}@'' @ ''{domain.tld}'')),
      (''extra'', CapBool True)]"
  by (simp add: seededWorld_def)

lemma seeded_final:
  "finalCapabilities exampleEnv
     \<lparr>protocol = ''https:'', hostname = ''example.com'', href = ''https://example.com/''\<rparr>
     seededConfig
     [(''pki'', CapString (''https://other.example/id/{alias}@'' @ ''{domain.tld}'')),
      (''extra'', CapBool True)] =
   [(''pki'', CapString (''https://other.example/id/{alias}@'' @ ''{domain.tld}'')),
    (''extra'', CapBool True),
    (''requestSenderValidation'', CapBool False),
    (''userDomain'', CapString (''https://example.com/oauth/{user}@'' @ ''{domain.tld}'')),
    (''userDomainResponse'', CapString (''https://example.com/oauth/response/{app}@'' @ ''{domain.tld}'')),
    (''userInfo'', CapString (''https://example.com/payauth/userinfo/{user}@'' @ ''{domain.tld}''))]"
  by code_simp

lemma seeded_build_heap0:
  "heap (snd (buildPaymailRouter exampleEnv ''https://example.com'' seededConfig seededWorld)) 0 =
   [(''pki'', CapString (''https://other.example/id/{alias}@'' @ ''{domain.tld}'')),
    (''extra'', CapBool True),
    (''requestSenderValidation'', CapBool False),
    (''userDomain'', CapString (''https://example.com/oauth/{user}@'' @ ''{domain.tld}'')),
    (''userDomainResponse'', CapString (''https://example.com/oauth/response/{app}@'' @ ''{domain.tld}'')),
    (''userInfo'', CapString (''https://example.com/payauth/userinfo/{user}@'' @ ''{domain.tld}''))]"
proof -
  have c: "capsAddr seededConfig seededWorld = 0" "initialObject seededConfig seededWorld = heap seededWorld 0"
    by (simp_all add: capsAddr_def initialObject_def seededConfig_def)
  show ?thesis
    unfolding build_heap [OF example_parse] c seeded_heap0 seeded_final by simp
qed

lemma seeded_served:
  "buildAndServe exampleEnv ''https://example.com'' seededConfig seededWorld =
   Some [(''pki'', CapString (''https://other.example/id/{alias}@'' @ ''{domain.tld}'')),
    (''extra'', CapBool True),
    (''requestSenderValidation'', CapBool False),
    (''userDomain'', CapString (''https://example.com/oauth/{user}@'' @ ''{domain.tld}'')),
    (''userDomainResponse'', CapString (''https://example.com/oauth/response/{app}@'' @ ''{domain.tld}'')),
    (''userInfo'', CapString (''https://example.com/payauth/userinfo/{user}@'' @ ''{domain.tld}''))]"
proof -
  have c: "initialObject seededConfig seededWorld = heap seededWorld 0"
    by (simp add: initialObject_def seededConfig_def)
  show ?thesis
    unfolding buildAndServe_success [OF example_parse] c seeded_heap0 seeded_final by simp
qed







lemma example_joins:
  "joinUrls [''https://example.com/'', ''/'', ''/id/{alias}@'' @ ''{domain.tld}'']
     = ''https://example.com/id/{alias}@'' @ ''{domain.tld}''"
  "joinUrls [''https://example.com/'', ''/'', ''/oauth/{user}@'' @ ''{domain.tld}'']
     = ''https://example.com/oauth/{user}@'' @ ''{domain.tld}''"
  "joinUrls [''https://example.com/'', ''/'', ''/oauth/response/{app}@'' @ ''{domain.tld}'']
     = ''https://example.com/oauth/response/{app}@'' @ ''{domain.tld}''"
  "joinUrls [''https://example.com/'', ''/'', ''/payauth/userinfo/{user}@'' @ ''{domain.tld}'']
     = ''https://example.com/payauth/userinfo/{user}@'' @ ''{domain.tld}''"
  by code_simp+

section \<open>The claims\<close>

text \<open>
  C1 (as amended).  Let the build succeed and let the twelve keys be distinct.
  The capability object in the discovery document then has the boolean
  sender-validation entry, and its keys are the keys the caller's own capability
  object already had together with \<open>expectedKeys\<close>: the sender-validation code,
  the key of each enabled sub-protocol (and of no other sub-protocol), and
  \<open>userDomain\<close>, \<open>userDomainResponse\<close>, \<open>userInfo\<close>.  When the configuration
  brings no capability object of its own, the keys are exactly \<open>expectedKeys\<close>,
  each once.
\<close>

theorem capability_map_entries:
  assumes "buildPaymailRouter e b cfg w = (Inr r, w')" and "keysDistinct e"
  shows "\<exists>caps. servedCapabilities r w' = Some caps \<and>
           getProp caps (code_requestSenderValidation (capabilityCodes e))
             = Some (CapBool (requestSenderValidation cfg = Some True)) \<and>
           set (ownKeys caps) = set (ownKeys (initialObject cfg w)) \<union> set (expectedKeys e cfg) \<and>
           (\<forall>p. (capKey e p \<in> set (expectedKeys e cfg)) = subProtocolEnabled e cfg p) \<and>
           (capabilities cfg = None \<longrightarrow>
              ownKeys caps = expectedKeys e cfg \<and> distinct (ownKeys caps))"
proof -
  from build_served [OF assms(1)] obtain u where
    s: "servedCapabilities r w' = Some (finalCapabilities e u cfg (initialObject cfg w))"
    by blast
  let ?caps = "finalCapabilities e u cfg (initialObject cfg w)"
  have c1: "getProp ?caps (code_requestSenderValidation (capabilityCodes e))
             = Some (CapBool (requestSenderValidation cfg = Some True))"
    by (rule getProp_final_rsv [OF assms(2)])
  have c2: "set (ownKeys ?caps) = set (ownKeys (initialObject cfg w)) \<union> set (expectedKeys e cfg)"
    by (rule set_ownKeys_final)
  have c3: "\<forall>p. (capKey e p \<in> set (expectedKeys e cfg)) = subProtocolEnabled e cfg p"
    by (simp add: expectedKeys_member [OF assms(2)])
  have c4: "capabilities cfg = None \<longrightarrow>
              ownKeys ?caps = expectedKeys e cfg \<and> distinct (ownKeys ?caps)"
  proof
    assume "capabilities cfg = None"
    then have i: "initialObject cfg w = []" by (simp add: initialObject_def)
    have "distinct (ownKeys ([] :: js_object))" by (simp add: ownKeys_def)
    from distinct_final [OF this, of e u cfg] ownKeys_final_fresh [OF assms(2), of u cfg]
    show "ownKeys ?caps = expectedKeys e cfg \<and> distinct (ownKeys ?caps)"
      unfolding i by blast
  qed
  show ?thesis
    by (intro exI [of _ ?caps] conjI) (rule s c1 c2 c3 c4)+
qed

theorem capability_map_entries_witness:
  "keysDistinct exampleEnv \<and>
   capabilities identityConfig = None \<and>
   fst (buildPaymailRouter exampleEnv ''https://example.com'' identityConfig emptyWorld)
     = Inr (builtRouter exampleEnv identityConfig emptyWorld) \<and>
   buildAndServe exampleEnv ''https://example.com'' identityConfig emptyWorld =
     Some [(''requestSenderValidation'', CapBool False),
           (''pki'', CapString (''https://example.com/id/{alias}@'' @ ''{domain.tld}'')),
           (''userDomain'', CapString (''https://example.com/oauth/{user}@'' @ ''{domain.tld}'')),
           (''userDomainResponse'',
              CapString (''https://example.com/oauth/response/{app}@'' @ ''{domain.tld}'')),
           (''userInfo'',
              CapString (''https://example.com/payauth/userinfo/{user}@'' @ ''{domain.tld}''))] \<and>
   expectedKeys exampleEnv identityConfig =
     [''requestSenderValidation'', ''pki'', ''userDomain'', ''userDomainResponse'', ''userInfo'']"
proof -
  obtain w' where w': "buildPaymailRouter exampleEnv ''https://example.com'' identityConfig emptyWorld
      = (Inr (builtRouter exampleEnv identityConfig emptyWorld), w')"
    using build_result [OF example_parse] by blast
  have n: "capabilities identityConfig = None" by (simp add: identityConfig_def)
  from capability_map_entries [OF w' example_keysDistinct]
  obtain caps where s: "servedCapabilities (builtRouter exampleEnv identityConfig emptyWorld) w' = Some caps"
    and k: "capabilities identityConfig = None \<longrightarrow>
              ownKeys caps = expectedKeys exampleEnv identityConfig \<and> distinct (ownKeys caps)"
    by (elim exE conjE) (rule that, assumption+)
  from s w' have "buildAndServe exampleEnv ''https://example.com'' identityConfig emptyWorld = Some caps"
    by (simp add: buildAndServe_eq)
  with identity_served have c: "caps =
        [(''requestSenderValidation'', CapBool False),
           (''pki'', CapString (''https://example.com/id/{alias}@'' @ ''{domain.tld}'')),
           (''userDomain'', CapString (''https://example.com/oauth/{user}@'' @ ''{domain.tld}'')),
           (''userDomainResponse'',
              CapString (''https://example.com/oauth/response/{app}@'' @ ''{domain.tld}'')),
           (''userInfo'',
              CapString (''https://example.com/payauth/userinfo/{user}@'' @ ''{domain.tld}''))]"
    by simp
  from k n have "expectedKeys exampleEnv identityConfig = ownKeys caps" by simp
  then have "expectedKeys exampleEnv identityConfig =
     [''requestSenderValidation'', ''pki'', ''userDomain'', ''userDomainResponse'', ''userInfo'']"
    unfolding c by (simp add: ownKeys_def)
  with example_keysDistinct n w' identity_served show ?thesis by simp
qed

text \<open>
  C1 as stated fails when the caller hands in a capability object: with no
  sub-protocol enabled, the document still lists the caller's \<open>pki\<close> and
  \<open>extra\<close> entries next to the four the build wrote.
\<close>

theorem seeded_capabilities_are_served:
  "enabledSubProtocols exampleEnv seededConfig = [] \<and>
   keysDistinct exampleEnv \<and>
   ''extra'' \<notin> set (expectedKeys exampleEnv seededConfig) \<and>
   buildAndServe exampleEnv ''https://example.com'' seededConfig seededWorld =
   Some [(''pki'', CapString (''https://other.example/id/{alias}@'' @ ''{domain.tld}'')),
    (''extra'', CapBool True),
    (''requestSenderValidation'', CapBool False),
    (''userDomain'', CapString (''https://example.com/oauth/{user}@'' @ ''{domain.tld}'')),
    (''userDomainResponse'', CapString (''https://example.com/oauth/response/{app}@'' @ ''{domain.tld}'')),
    (''userInfo'', CapString (''https://example.com/payauth/userinfo/{user}@'' @ ''{domain.tld}''))]"
proof -
  have en: "enabledSubProtocols exampleEnv seededConfig = []"
    by (simp add: enabledSubProtocols_def seeded_enabled)
  have "''extra'' \<notin> set (expectedKeys exampleEnv seededConfig)"
    unfolding expectedKeys_def en by (simp add: exampleEnv_def exampleCodes_def)
  with en example_keysDistinct seeded_served show ?thesis by blast
qed




text \<open>
  C3 (as amended).  Let the build succeed and the twelve keys be distinct.  The
  router of a sub-protocol is mounted exactly when the sub-protocol is enabled;
  its key is in the served capability object exactly when the sub-protocol is
  enabled or the caller's own capability object already had that key; when it is
  enabled the entry is its URL template.  So unless the caller's object already
  had the key, the router is mounted if and only if the entry is present.
\<close>

theorem handler_mounted_iff_capability_registered:
  assumes "buildPaymailRouter e b cfg w = (Inr r, w')" and "keysDistinct e"
  shows "\<exists>caps u. servedCapabilities r w' = Some caps \<and> parseURL e b = Inr u \<and>
      (SubRouter p \<in> set (mountedHandlers r)) = subProtocolEnabled e cfg p \<and>
      (capKey e p \<in> set (ownKeys caps)) =
         (subProtocolEnabled e cfg p \<or> capKey e p \<in> set (ownKeys (initialObject cfg w))) \<and>
      (subProtocolEnabled e cfg p \<longrightarrow>
         getProp caps (capKey e p) = Some (template u cfg (capPath p))) \<and>
      (capKey e p \<notin> set (ownKeys (initialObject cfg w)) \<longrightarrow>
         (SubRouter p \<in> set (mountedHandlers r)) = (capKey e p \<in> set (ownKeys caps)))"
proof -
  from build_served [OF assms(1)] obtain u where u: "parseURL e b = Inr u"
    and r: "r = builtRouter e cfg w"
    and s: "servedCapabilities r w' = Some (finalCapabilities e u cfg (initialObject cfg w))"
    by blast
  let ?caps = "finalCapabilities e u cfg (initialObject cfg w)"
  have m: "(SubRouter p \<in> set (mountedHandlers r)) = subProtocolEnabled e cfg p"
    unfolding r mountedHandlers_builtRouter by (auto simp: set_enabledSubProtocols)
  have k: "(capKey e p \<in> set (ownKeys ?caps)) =
         (subProtocolEnabled e cfg p \<or> capKey e p \<in> set (ownKeys (initialObject cfg w)))"
    unfolding set_ownKeys_final using expectedKeys_member [OF assms(2), of p cfg] by auto
  have g: "subProtocolEnabled e cfg p \<longrightarrow>
         getProp ?caps (capKey e p) = Some (template u cfg (capPath p))"
    using getProp_final_enabled [OF assms(2)] by blast
  have a: "capKey e p \<notin> set (ownKeys (initialObject cfg w)) \<longrightarrow>
         (SubRouter p \<in> set (mountedHandlers r)) = (capKey e p \<in> set (ownKeys ?caps))"
    using m k by simp
  show ?thesis
    by (intro exI [of _ ?caps] exI [of _ u] conjI) (rule s u m k g a)+
qed

theorem handler_mounted_iff_capability_registered_witness:
  "keysDistinct exampleEnv \<and>
   fst (buildPaymailRouter exampleEnv ''https://example.com'' identityConfig emptyWorld)
     = Inr (builtRouter exampleEnv identityConfig emptyWorld) \<and>
   subProtocolEnabled exampleEnv identityConfig Identity \<and>
   SubRouter Identity \<in> set (mountedHandlers (builtRouter exampleEnv identityConfig emptyWorld)) \<and>
   \<not> subProtocolEnabled exampleEnv identityConfig VerifyPubkey \<and>
   SubRouter VerifyPubkey \<notin> set (mountedHandlers (builtRouter exampleEnv identityConfig emptyWorld)) \<and>
   buildAndServe exampleEnv ''https://example.com'' identityConfig emptyWorld =
     Some [(''requestSenderValidation'', CapBool False),
           (''pki'', CapString (''https://example.com/id/{alias}@'' @ ''{domain.tld}'')),
           (''userDomain'', CapString (''https://example.com/oauth/{user}@'' @ ''{domain.tld}'')),
           (''userDomainResponse'',
              CapString (''https://example.com/oauth/response/{app}@'' @ ''{domain.tld}'')),
           (''userInfo'',
              CapString (''https://example.com/payauth/userinfo/{user}@'' @ ''{domain.tld}''))]"
proof -
  let ?r = "builtRouter exampleEnv identityConfig emptyWorld"
  obtain w' where w': "buildPaymailRouter exampleEnv ''https://example.com'' identityConfig emptyWorld
      = (Inr ?r, w')"
    using build_result [OF example_parse] by blast
  from handler_mounted_iff_capability_registered [OF w' example_keysDistinct, of Identity]
  have m1: "SubRouter Identity \<in> set (mountedHandlers ?r)"
    by (auto simp: identity_enabled)
  from handler_mounted_iff_capability_registered [OF w' example_keysDistinct, of VerifyPubkey]
  have m2: "SubRouter VerifyPubkey \<notin> set (mountedHandlers ?r)"
    by (auto simp: identity_enabled)
  from m1 m2 example_keysDistinct w' identity_served show ?thesis
    by (simp add: identity_enabled)
qed

text \<open>
  C3 as stated fails when the caller's capability object already has the key:
  identity lookup is disabled and its router is not mounted, yet the document
  lists \<open>pki\<close>.
\<close>

theorem seeded_entry_without_handler:
  "\<not> subProtocolEnabled exampleEnv seededConfig Identity \<and>
   fst (buildPaymailRouter exampleEnv ''https://example.com'' seededConfig seededWorld)
     = Inr (builtRouter exampleEnv seededConfig seededWorld) \<and>
   SubRouter Identity \<notin> set (mountedHandlers (builtRouter exampleEnv seededConfig seededWorld)) \<and>
   capKey exampleEnv Identity = ''pki'' \<and>
   buildAndServe exampleEnv ''https://example.com'' seededConfig seededWorld =
     Some [(''pki'', CapString (''https://other.example/id/{alias}@'' @ ''{domain.tld}'')),
           (''extra'', CapBool True),
           (''requestSenderValidation'', CapBool False),
           (''userDomain'', CapString (''https://example.com/oauth/{user}@'' @ ''{domain.tld}'')),
           (''userDomainResponse'',
              CapString (''https://example.com/oauth/response/{app}@'' @ ''{domain.tld}'')),
           (''userInfo'',
              CapString (''https://example.com/payauth/userinfo/{user}@'' @ ''{domain.tld}''))]"
proof -
  have en: "enabledSubProtocols exampleEnv seededConfig = []"
    by (simp add: enabledSubProtocols_def seeded_enabled)
  have "SubRouter Identity \<notin> set (mountedHandlers (builtRouter exampleEnv seededConfig seededWorld))"
    unfolding mountedHandlers_builtRouter en by simp
  then show ?thesis
    using seeded_enabled [of Identity] seeded_served
      build_router [OF example_parse, of seededConfig seededWorld]
    by simp
qed

text \<open>
  C4.  A base URL without a scheme: the build fails, returns no router and
  changes nothing, and the message of the thrown error ends with the input.  The
  caught parse failure is handed to \<open>Error\<close> where an options object is
  expected, so the thrown error has no cause: the parse failure is lost.
\<close>

theorem invalid_base_url_drops_parse_failure:
  "parseURL exampleEnv ''example.com'' = Inl (JsError ''Invalid URL'' None) \<and>
   buildPaymailRouter exampleEnv ''example.com'' identityConfig emptyWorld =
     (Inl (JsError ''Invalid base url: example.com'' None), emptyWorld) \<and>
   errCause (JsError ''Invalid base url: example.com'' None) \<noteq> Some (JsError ''Invalid URL'' None)"
proof -
  have p: "parseURL exampleEnv ''example.com'' = Inl (JsError ''Invalid URL'' None)"
    by (simp add: exampleEnv_def exampleParse_def)
  from build_failure [OF p, of identityConfig emptyWorld] p show ?thesis by simp
qed

text \<open>
  C5 (as amended).  Take a router that was built and a GET request for
  \<open>/.well-known/bsvalias\<close>.  If the body parser and, where it is installed, the
  cross-origin middleware pass the request on, it is answered with the content
  type \<open>application/json\<close> and a body of \<open>bsvalias: '1.0'\<close> and the capability
  object the build filled, as it is at the time of the request.  If the body
  parser rejects the request, it goes to the error handler instead.  Either way
  the request leaves the world, and so the capability object, as it was, and the
  same request sent again ends the same way.
\<close>

theorem discovery_document_is_fixed:
  assumes "buildPaymailRouter e b cfg w = (Inr r, w')"
    and "reqMethod req = ''GET'' \<and> reqPath req = wellKnownPath"
  shows "\<exists>caps u. parseURL e b = Inr u \<and>
           heap w' caps = finalCapabilities e u cfg (initialObject cfg w) \<and>
           (\<forall>mw w1.
              snd (dispatch mw r req w1) = w1 \<and>
              dispatch mw r req (snd (dispatch mw r req w1)) = dispatch mw r req w1 \<and>
              (runBodyParser mw
                 (setOption ''type'' ''application/json''
                    (case bodyParserConfig cfg of None \<Rightarrow> [] | Some c \<Rightarrow> c)) req = PassOn \<and>
               (useCors cfg \<longrightarrow>
                  runCors mw (case corsConfig cfg of None \<Rightarrow> [] | Some c \<Rightarrow> c) req = PassOn)
               \<longrightarrow>
                 dispatch mw r req w1 =
                   (Answered \<lparr>resType = ''application/json'',
                              resBody = \<lparr>bsvalias = ''1.0'', docCapabilities = heap w1 caps\<rparr>\<rparr>,
                    w1)) \<and>
              (\<forall>err.
                 runBodyParser mw
                   (setOption ''type'' ''application/json''
                      (case bodyParserConfig cfg of None \<Rightarrow> [] | Some c \<Rightarrow> c)) req = Fail err
                 \<longrightarrow> dispatch mw r req w1 = (ToErrorHandler (errorHandler cfg) err, w1)))"
proof -
  from build_cases [OF assms(1)] obtain u where u: "parseURL e b = Inr u"
    and r: "r = builtRouter e cfg w"
    and h: "heap w' = (heap w)(capsAddr cfg w := finalCapabilities e u cfg (initialObject cfg w))"
    by blast
  from assms(2) have q: "reqMethod req = ''GET''" "reqPath req = wellKnownPath" by simp_all
  from h have c: "heap w' (capsAddr cfg w) = finalCapabilities e u cfg (initialObject cfg w)"
    by simp
  have d: "snd (dispatch mw r req w1) = w1" for mw w1
    unfolding r by (rule dispatch_builtRouter_world [OF q])
  have a: "dispatch mw r req w1 =
        (Answered \<lparr>resType = ''application/json'',
                   resBody = \<lparr>bsvalias = ''1.0'', docCapabilities = heap w1 (capsAddr cfg w)\<rparr>\<rparr>,
         w1)"
    if "runBodyParser mw
          (setOption ''type'' ''application/json''
             (case bodyParserConfig cfg of None \<Rightarrow> [] | Some c \<Rightarrow> c)) req = PassOn \<and>
        (useCors cfg \<longrightarrow>
           runCors mw (case corsConfig cfg of None \<Rightarrow> [] | Some c \<Rightarrow> c) req = PassOn)"
    for mw w1
    unfolding r dispatch_builtRouter [OF q] using that by (auto simp: wellKnownHandler_def)
  have f: "dispatch mw r req w1 = (ToErrorHandler (errorHandler cfg) err, w1)"
    if "runBodyParser mw
          (setOption ''type'' ''application/json''
             (case bodyParserConfig cfg of None \<Rightarrow> [] | Some c \<Rightarrow> c)) req = Fail err"
    for mw w1 err
    unfolding r dispatch_builtRouter [OF q] using that by simp
  show ?thesis
    by (intro exI [of _ "capsAddr cfg w"] exI [of _ u] conjI allI impI)
       (simp_all add: u c d a f)
qed

theorem discovery_document_is_fixed_witness:
  "fst (buildPaymailRouter exampleEnv ''https://example.com'' identityConfig emptyWorld)
     = Inr (builtRouter exampleEnv identityConfig emptyWorld) \<and>
   reqMethod discoveryRequest = ''GET'' \<and> reqPath discoveryRequest = wellKnownPath \<and>
   runBodyParser exampleCollaborators [(''type'', ''application/json'')] discoveryRequest = PassOn \<and>
   runCors exampleCollaborators [] discoveryRequest = PassOn \<and>
   dispatch exampleCollaborators (builtRouter exampleEnv identityConfig emptyWorld) discoveryRequest
     (snd (buildPaymailRouter exampleEnv ''https://example.com'' identityConfig emptyWorld)) =
     (Answered \<lparr>resType = ''application/json'',
            resBody = \<lparr>bsvalias = ''1.0'', docCapabilities =
              [(''requestSenderValidation'', CapBool False),
               (''pki'', CapString (''https://example.com/id/{alias}@'' @ ''{domain.tld}'')),
               (''userDomain'', CapString (''https://example.com/oauth/{user}@'' @ ''{domain.tld}'')),
               (''userDomainResponse'',
                  CapString (''https://example.com/oauth/response/{app}@'' @ ''{domain.tld}'')),
               (''userInfo'',
                  CapString (''https://example.com/payauth/userinfo/{user}@'' @ ''{domain.tld}''))]\<rparr>\<rparr>,
      snd (buildPaymailRouter exampleEnv ''https://example.com'' identityConfig emptyWorld))"
proof -
  let ?u = "\<lparr>protocol = ''https:'', hostname = ''example.com'', href = ''https://example.com/''\<rparr>"
  let ?r = "builtRouter exampleEnv identityConfig emptyWorld"
  obtain w' where w': "buildPaymailRouter exampleEnv ''https://example.com'' identityConfig emptyWorld
      = (Inr ?r, w')"
    using build_result [OF example_parse] by blast
  have q: "reqMethod discoveryRequest = ''GET'' \<and> reqPath discoveryRequest = wellKnownPath"
    by (simp add: discoveryRequest_def)
  have i: "initialObject identityConfig emptyWorld = []"
    by (simp add: initialObject_def identityConfig_def)
  have o: "setOption ''type'' ''application/json''
             (case bodyParserConfig identityConfig of None \<Rightarrow> [] | Some c \<Rightarrow> c)
           = [(''type'', ''application/json'')]"
    "(case corsConfig identityConfig of None \<Rightarrow> [] | Some c \<Rightarrow> c) = []"
    by (simp_all add: identityConfig_def)
  have pb: "runBodyParser exampleCollaborators [(''type'', ''application/json'')] discoveryRequest
      = PassOn"
    by (simp add: exampleCollaborators_def discoveryRequest_def)
  have pc: "runCors exampleCollaborators [] discoveryRequest = PassOn"
    by (simp add: exampleCollaborators_def)
  from discovery_document_is_fixed [OF w' q]
  obtain caps u where u: "parseURL exampleEnv ''https://example.com'' = Inr u"
    and h: "heap w' caps = finalCapabilities exampleEnv u identityConfig (initialObject identityConfig emptyWorld)"
    and g: "runBodyParser exampleCollaborators
                 (setOption ''type'' ''application/json''
                    (case bodyParserConfig identityConfig of None \<Rightarrow> [] | Some c \<Rightarrow> c))
                 discoveryRequest = PassOn \<and>
               (useCors identityConfig \<longrightarrow>
                  runCors exampleCollaborators
                    (case corsConfig identityConfig of None \<Rightarrow> [] | Some c \<Rightarrow> c)
                    discoveryRequest = PassOn)
               \<longrightarrow>
                 dispatch exampleCollaborators ?r discoveryRequest w' =
                   (Answered \<lparr>resType = ''application/json'',
                              resBody = \<lparr>bsvalias = ''1.0'', docCapabilities = heap w' caps\<rparr>\<rparr>,
                    w')"
    by blast
  from u example_parse have "u = ?u" by simp
  with h have hc: "heap w' caps = finalCapabilities exampleEnv ?u identityConfig []"
    by (simp add: i)
  from g pb pc have "dispatch exampleCollaborators ?r discoveryRequest w' =
                   (Answered \<lparr>resType = ''application/json'',
                              resBody = \<lparr>bsvalias = ''1.0'', docCapabilities = heap w' caps\<rparr>\<rparr>,
                    w')"
    unfolding o by blast
  with hc w' q pb pc show ?thesis by (simp add: identity_final)
qed

text \<open>
  C5 as stated fails for a GET request whose body the parser rejects: the parser
  runs before the route, the request goes to the error handler and gets no
  discovery document.
\<close>

theorem rejected_body_gets_no_document:
  "reqMethod badJsonRequest = ''GET'' \<and> reqPath badJsonRequest = wellKnownPath \<and>
   fst (buildPaymailRouter exampleEnv ''https://example.com'' identityConfig emptyWorld)
     = Inr (builtRouter exampleEnv identityConfig emptyWorld) \<and>
   runBodyParser exampleCollaborators [(''type'', ''application/json'')] badJsonRequest
     = Fail (JsError ''Unexpected token b in JSON at position 1'' None) \<and>
   fst (dispatch exampleCollaborators (builtRouter exampleEnv identityConfig emptyWorld)
          badJsonRequest
          (snd (buildPaymailRouter exampleEnv ''https://example.com'' identityConfig emptyWorld)))
     = ToErrorHandler 0 (JsError ''Unexpected token b in JSON at position 1'' None)"
proof -
  have q: "reqMethod badJsonRequest = ''GET''" "reqPath badJsonRequest = wellKnownPath"
    by (simp_all add: badJsonRequest_def)
  have o: "setOption ''type'' ''application/json''
             (case bodyParserConfig identityConfig of None \<Rightarrow> [] | Some c \<Rightarrow> c)
           = [(''type'', ''application/json'')]"
    by (simp add: identityConfig_def)
  have f: "runBodyParser exampleCollaborators [(''type'', ''application/json'')] badJsonRequest
     = Fail (JsError ''Unexpected token b in JSON at position 1'' None)"
    by (simp add: exampleCollaborators_def badJsonRequest_def)
  have eh: "errorHandler identityConfig = 0" by (simp add: identityConfig_def)
  have "fst (dispatch exampleCollaborators (builtRouter exampleEnv identityConfig emptyWorld)
          badJsonRequest w1)
     = ToErrorHandler 0 (JsError ''Unexpected token b in JSON at position 1'' None)" for w1
    unfolding dispatch_builtRouter [OF q] o f by (simp add: eh)
  with q f build_router [OF example_parse, of identityConfig emptyWorld] show ?thesis by simp
qed

text \<open>
  C6.  The example of the specification: base URL \<open>https://example.com\<close>, no base
  path, nothing else set in the configuration, only identity lookup enabled.  The
  discovery document lists the sender-validation flag \<open>false\<close>, \<open>pki\<close> and the
  three fixed entries, and nothing else.
\<close>

theorem identity_only_example:
  assumes "parseURL e ''https://example.com'' = Inr u"
    and "href u = ''https://example.com/''"
    and "basePath cfg = None"
    and "capabilities cfg = None"
    and "requestSenderValidation cfg \<noteq> Some True"
    and "\<forall>p. subProtocolEnabled e cfg p = (p = Identity)"
    and "code_requestSenderValidation (capabilityCodes e)
           \<notin> {''pki'', ''userDomain'', ''userDomainResponse'', ''userInfo''}"
  shows "buildAndServe e ''https://example.com'' cfg w =
     Some [(code_requestSenderValidation (capabilityCodes e), CapBool False),
           (''pki'', CapString (''https://example.com/id/{alias}@'' @ ''{domain.tld}'')),
           (''userDomain'', CapString (''https://example.com/oauth/{user}@'' @ ''{domain.tld}'')),
           (''userDomainResponse'',
              CapString (''https://example.com/oauth/response/{app}@'' @ ''{domain.tld}'')),
           (''userInfo'',
              CapString (''https://example.com/payauth/userinfo/{user}@'' @ ''{domain.tld}''))]"
proof -
  have i: "initialObject cfg w = []" using assms(4) by (simp add: initialObject_def)
  have gb: "getBaseRoute cfg = ''/''" using assms(3) by (simp add: getBaseRoute_def)
  have t1: "template u cfg (capPath Identity)
      = CapString (''https://example.com/id/{alias}@'' @ ''{domain.tld}'')"
    unfolding template_def assms(2) gb capPath.simps example_joins by (rule refl)
  have t2: "template u cfg (''/oauth/{user}@'' @ ''{domain.tld}'')
      = CapString (''https://example.com/oauth/{user}@'' @ ''{domain.tld}'')"
    "template u cfg (''/oauth/response/{app}@'' @ ''{domain.tld}'')
      = CapString (''https://example.com/oauth/response/{app}@'' @ ''{domain.tld}'')"
    "template u cfg (''/payauth/userinfo/{user}@'' @ ''{domain.tld}'')
      = CapString (''https://example.com/payauth/userinfo/{user}@'' @ ''{domain.tld}'')"
    unfolding template_def assms(2) gb example_joins by (rule refl)+
  have en: "subProtocolEnabled e cfg p = (p = Identity)" for p using assms(6) by simp
  have ar: "afterRegistrars e u cfg subProtocolSequence obj
      = setProp ''pki'' (template u cfg (capPath Identity)) obj" for obj
    by (simp add: subProtocolSequence_def en)
  have f: "finalCapabilities e u cfg [] =
     [(code_requestSenderValidation (capabilityCodes e), CapBool False),
           (''pki'', CapString (''https://example.com/id/{alias}@'' @ ''{domain.tld}'')),
           (''userDomain'', CapString (''https://example.com/oauth/{user}@'' @ ''{domain.tld}'')),
           (''userDomainResponse'',
              CapString (''https://example.com/oauth/response/{app}@'' @ ''{domain.tld}'')),
           (''userInfo'',
              CapString (''https://example.com/payauth/userinfo/{user}@'' @ ''{domain.tld}''))]"
    unfolding finalCapabilities_def ar t1 t2
    using assms(5,7) by simp
  show ?thesis
    unfolding buildAndServe_success [OF assms(1)] i f by simp
qed

theorem identity_only_example_witness:
  "parseURL exampleEnv ''https://example.com''
     = Inr \<lparr>protocol = ''https:'', hostname = ''example.com'', href = ''https://example.com/''\<rparr> \<and>
   basePath identityConfig = None \<and> capabilities identityConfig = None \<and>
   requestSenderValidation identityConfig = None \<and>
   enabledSubProtocols exampleEnv identityConfig = [Identity] \<and>
   buildAndServe exampleEnv ''https://example.com'' identityConfig emptyWorld =
     Some [(''requestSenderValidation'', CapBool False),
           (''pki'', CapString (''https://example.com/id/{alias}@'' @ ''{domain.tld}'')),
           (''userDomain'', CapString (''https://example.com/oauth/{user}@'' @ ''{domain.tld}'')),
           (''userDomainResponse'',
              CapString (''https://example.com/oauth/response/{app}@'' @ ''{domain.tld}'')),
           (''userInfo'',
              CapString (''https://example.com/payauth/userinfo/{user}@'' @ ''{domain.tld}''))]"
proof -
  let ?u = "\<lparr>protocol = ''https:'', hostname = ''example.com'', href = ''https://example.com/''\<rparr>"
  have h: "href ?u = ''https://example.com/''" by simp
  have c: "basePath identityConfig = None" "capabilities identityConfig = None"
    "requestSenderValidation identityConfig = None"
    by (simp_all add: identityConfig_def)
  have r: "requestSenderValidation identityConfig \<noteq> Some True" by (simp add: c)
  have en: "\<forall>p. subProtocolEnabled exampleEnv identityConfig p = (p = Identity)"
    by (simp add: identity_enabled)
  have k: "code_requestSenderValidation (capabilityCodes exampleEnv) = ''requestSenderValidation''"
    by (simp add: exampleEnv_def exampleCodes_def)
  have n: "code_requestSenderValidation (capabilityCodes exampleEnv)
           \<notin> {''pki'', ''userDomain'', ''userDomainResponse'', ''userInfo''}"
    by (simp add: k)
  have es: "enabledSubProtocols exampleEnv identityConfig = [Identity]"
    by (simp add: enabledSubProtocols_def subProtocolSequence_def identity_enabled)
  from identity_only_example [OF example_parse h c(1) c(2) r en n, of emptyWorld]
  show ?thesis unfolding k using example_parse c es by simp
qed

text \<open>
  C7.  The stack of a router that was built is the body parser, the cross-origin
  middleware if enabled, the discovery route, the mounted sub-protocol routers
  and, last, the error handler.  No other layer is an error handler, every
  enabled sub-protocol's router is in a layer before it, and an error raised in
  any earlier layer is handed to it.
\<close>

theorem error_handler_is_last:
  assumes "buildPaymailRouter e b cfg w = (Inr r, w')"
  shows "r = bodyParserStage cfg # (if useCors cfg then [corsStage cfg] else [])
             @ [GetRoute wellKnownPath (WellKnown (capsAddr cfg w)),
                Mount (getBaseRoute cfg) (map SubRouter (enabledSubProtocols e cfg)),
                ErrorStage (errorHandler cfg)] \<and>
         last r = ErrorStage (errorHandler cfg) \<and>
         (\<forall>h. ErrorStage h \<notin> set (butlast r)) \<and>
         (\<forall>p. subProtocolEnabled e cfg p \<longrightarrow> SubRouter p \<in> set (mountedHandlers (butlast r))) \<and>
         (\<forall>i. Suc i < length r \<longrightarrow> errorTarget r i = Some (errorHandler cfg))"
proof -
  from build_cases [OF assms] have r: "r = builtRouter e cfg w" by blast
  obtain front where f: "r = front @ [ErrorStage (errorHandler cfg)]"
    and ne: "\<forall>h. ErrorStage h \<notin> set front"
    and mh: "mountedHandlers front = map SubRouter (enabledSubProtocols e cfg)"
    using builtRouter_front [of e cfg w] r by blast
  have "\<forall>i. Suc i < length r \<longrightarrow> errorTarget r i = Some (errorHandler cfg)"
    using errorTarget_front [OF ne] f by simp
  moreover have "\<forall>p. subProtocolEnabled e cfg p \<longrightarrow> SubRouter p \<in> set (mountedHandlers (butlast r))"
    using f mh by (simp add: set_enabledSubProtocols)
  moreover have "r = bodyParserStage cfg # (if useCors cfg then [corsStage cfg] else [])
             @ [GetRoute wellKnownPath (WellKnown (capsAddr cfg w)),
                Mount (getBaseRoute cfg) (map SubRouter (enabledSubProtocols e cfg)),
                ErrorStage (errorHandler cfg)]"
    using r by (simp add: builtRouter_def)
  moreover have "last r = ErrorStage (errorHandler cfg)"
    using f by simp
  moreover have "\<forall>h. ErrorStage h \<notin> set (butlast r)"
    using f ne by simp
  ultimately show ?thesis by blast
qed

theorem error_handler_is_last_witness:
  "fst (buildPaymailRouter exampleEnv ''https://example.com'' identityConfig emptyWorld)
     = Inr (builtRouter exampleEnv identityConfig emptyWorld) \<and>
   builtRouter exampleEnv identityConfig emptyWorld =
     [BodyParserJson [(''type'', ''application/json'')], Cors [],
      GetRoute wellKnownPath (WellKnown 0), Mount ''/'' [SubRouter Identity], ErrorStage 0] \<and>
   last (builtRouter exampleEnv identityConfig emptyWorld) = ErrorStage 0 \<and>
   SubRouter Identity \<in> set (mountedHandlers (butlast (builtRouter exampleEnv identityConfig emptyWorld))) \<and>
   errorTarget (builtRouter exampleEnv identityConfig emptyWorld) 3 = Some 0"
proof -
  let ?u = "\<lparr>protocol = ''https:'', hostname = ''example.com'', href = ''https://example.com/''\<rparr>"
  let ?r = "builtRouter exampleEnv identityConfig emptyWorld"
  have p: "parseURL exampleEnv ''https://example.com'' = Inr ?u"
    by (simp add: exampleEnv_def exampleParse_def)
  obtain w' where w': "buildPaymailRouter exampleEnv ''https://example.com'' identityConfig emptyWorld
      = (Inr ?r, w')"
    using build_result [OF p] by blast
  note t = error_handler_is_last [OF w']
  have eh: "errorHandler identityConfig = 0" by (simp add: identityConfig_def)
  have ie: "subProtocolEnabled exampleEnv identityConfig Identity"
    by (simp add: subProtocolEnabled_def exampleEnv_def identityConfig_def)
  have en: "enabledSubProtocols exampleEnv identityConfig = [Identity]"
    by (simp add: enabledSubProtocols_def subProtocolSequence_def subProtocolEnabled_def
        exampleEnv_def identityConfig_def)
  have cf: "useCors identityConfig" "corsStage identityConfig = Cors []"
    "bodyParserStage identityConfig = BodyParserJson [(''type'', ''application/json'')]"
    "capsAddr identityConfig emptyWorld = 0" "getBaseRoute identityConfig = ''/''"
    by (simp_all add: identityConfig_def corsStage_def bodyParserStage_def capsAddr_def
        emptyWorld_def getBaseRoute_def)
  from t have "?r = bodyParserStage identityConfig
       # (if useCors identityConfig then [corsStage identityConfig] else [])
       @ [GetRoute wellKnownPath (WellKnown (capsAddr identityConfig emptyWorld)),
          Mount (getBaseRoute identityConfig)
            (map SubRouter (enabledSubProtocols exampleEnv identityConfig)),
          ErrorStage (errorHandler identityConfig)]" by blast
  then have r: "?r = [BodyParserJson [(''type'', ''application/json'')], Cors [],
      GetRoute wellKnownPath (WellKnown 0), Mount ''/'' [SubRouter Identity], ErrorStage 0]"
    by (simp only: cf en eh if_True list.map append.simps)
  from t eh have l: "last ?r = ErrorStage 0" by simp
  from t ie have m: "SubRouter Identity \<in> set (mountedHandlers (butlast ?r))" by blast
  from r have "Suc 3 < length ?r" by simp
  with t eh have et: "errorTarget ?r 3 = Some 0" by metis
  from w' r l m et show ?thesis by simp
qed

text \<open>
  C8 (as amended).  The build changes no capability object but the one it
  serves.  When the configuration brings none, that is a fresh object, and every
  object that existed before is as it was.  When the configuration brings one,
  that object is filled in place: after a successful build it is
  \<open>finalCapabilities\<close> of what it was.  A build that fails changes nothing.
\<close>

theorem build_changes_only_capability_object:
  assumes "buildPaymailRouter e b cfg w = (res, w')"
  shows "(\<forall>a. a \<noteq> capsAddr cfg w \<longrightarrow> heap w' a = heap w a) \<and>
         (capabilities cfg = None \<longrightarrow> (\<forall>a. a < nextAddr w \<longrightarrow> heap w' a = heap w a)) \<and>
         (\<forall>c u. capabilities cfg = Some c \<and> parseURL e b = Inr u \<longrightarrow>
                heap w' c = finalCapabilities e u cfg (heap w c)) \<and>
         ((\<exists>err. res = Inl err) \<longrightarrow> w' = w)"
proof (cases "parseURL e b")
  case (Inl err)
  from build_failure [OF Inl, of cfg w] assms have "w' = w" by simp
  with Inl show ?thesis by simp
next
  case (Inr u)
  from build_heap [OF Inr, of cfg w] assms
  have h: "heap w' = (heap w)(capsAddr cfg w := finalCapabilities e u cfg (initialObject cfg w))"
    by simp
  from build_router [OF Inr, of cfg w] assms have "res = Inr (builtRouter e cfg w)" by simp
  with h Inr show ?thesis
    by (auto simp: capsAddr_def initialObject_def)
qed

theorem build_changes_only_capability_object_witness:
  "heap (snd (buildPaymailRouter exampleEnv ''https://example.com'' seededConfig seededWorld)) 1
     = heap seededWorld 1 \<and>
   heap (snd (buildPaymailRouter exampleEnv ''https://example.com'' seededConfig seededWorld)) 0
     = finalCapabilities exampleEnv
         \<lparr>protocol = ''https:'', hostname = ''example.com'', href = ''https://example.com/''\<rparr>
         seededConfig (heap seededWorld 0)"
proof -
  obtain res w' where b:
    "buildPaymailRouter exampleEnv ''https://example.com'' seededConfig seededWorld = (res, w')"
    by (cases "buildPaymailRouter exampleEnv ''https://example.com'' seededConfig seededWorld")
  note t = build_changes_only_capability_object [OF b]
  have c: "capsAddr seededConfig seededWorld = 0" "capabilities seededConfig = Some 0"
    by (simp_all add: capsAddr_def seededConfig_def)
  from t c have "heap w' 1 = heap seededWorld 1" by simp
  moreover from t c example_parse have "heap w' 0 = finalCapabilities exampleEnv
         \<lparr>protocol = ''https:'', hostname = ''example.com'', href = ''https://example.com/''\<rparr>
         seededConfig (heap seededWorld 0)" by blast
  ultimately show ?thesis using b by simp
qed

text \<open>
  C8 as stated fails: the capability object the caller handed in has four
  entries more after the build.
\<close>

theorem caller_capabilities_object_is_mutated:
  "capabilities seededConfig = Some 0 \<and>
   heap seededWorld 0 =
     [(''pki'', CapString (''https://other.example/id/{alias}@'' @ ''{domain.tld}'')),
      (''extra'', CapBool True)] \<and>
   heap (snd (buildPaymailRouter exampleEnv ''https://example.com'' seededConfig seededWorld)) 0 =
     [(''pki'', CapString (''https://other.example/id/{alias}@'' @ ''{domain.tld}'')),
      (''extra'', CapBool True),
      (''requestSenderValidation'', CapBool False),
      (''userDomain'', CapString (''https://example.com/oauth/{user}@'' @ ''{domain.tld}'')),
      (''userDomainResponse'',
         CapString (''https://example.com/oauth/response/{app}@'' @ ''{domain.tld}'')),
      (''userInfo'',
         CapString (''https://example.com/payauth/userinfo/{user}@'' @ ''{domain.tld}''))] \<and>
   heap (snd (buildPaymailRouter exampleEnv ''https://example.com'' seededConfig seededWorld)) 0
     \<noteq> heap seededWorld 0"
  unfolding seeded_build_heap0 seeded_heap0 by (simp add: seededConfig_def)

text \<open>
  C9.  When the base URL parses, its scheme is not \<open>https:\<close> and its hostname
  passes the hostname test, \<open>validateBaseUrl\<close> prints the warning and returns the
  parsed URL as the parser gave it; \<open>buildPaymailRouter\<close> still returns a router,
  and the warning is the first thing the build printed.
\<close>

theorem insecure_dev_host_warns_and_completes:
  assumes "parseURL e b = Inr u"
    and "protocol u \<noteq> ''https:''"
    and "locahostPattern (hostname u)"
  shows "validateBaseUrl e b w = (Inr u, consoleWarn sslWarning w) \<and>
         (\<exists>w'. buildPaymailRouter e b cfg w = (Inr (builtRouter e cfg w), w') \<and>
               console w' = console w @ sslWarning # alphaWarnings e cfg subProtocolSequence)"
proof -
  from assms have "validateBaseUrl e b w = (Inr u, consoleWarn sslWarning w)"
    by (simp add: validateBaseUrl_def)
  moreover obtain w' where w': "buildPaymailRouter e b cfg w = (Inr (builtRouter e cfg w), w')"
    using build_result [OF assms(1)] by blast
  moreover have "console w' = console w @ sslWarning # alphaWarnings e cfg subProtocolSequence"
    using build_console [OF assms(1), of cfg w] assms(2,3) w' by simp
  ultimately show ?thesis by blast
qed

theorem insecure_dev_host_warns_and_completes_witness:
  "parseURL exampleEnv ''http://locahost:3000''
     = Inr \<lparr>protocol = ''http:'', hostname = ''locahost'', href = ''http://locahost:3000/''\<rparr> \<and>
   locahostPattern ''locahost'' \<and>
   fst (validateBaseUrl exampleEnv ''http://locahost:3000'' emptyWorld)
     = Inr \<lparr>protocol = ''http:'', hostname = ''locahost'', href = ''http://locahost:3000/''\<rparr> \<and>
   fst (buildPaymailRouter exampleEnv ''http://locahost:3000'' identityConfig emptyWorld)
     = Inr (builtRouter exampleEnv identityConfig emptyWorld) \<and>
   console (snd (buildPaymailRouter exampleEnv ''http://locahost:3000'' identityConfig emptyWorld))
     = [sslWarning]"
proof -
  let ?u = "\<lparr>protocol = ''http:'', hostname = ''locahost'', href = ''http://locahost:3000/''\<rparr>"
  have p: "parseURL exampleEnv ''http://locahost:3000'' = Inr ?u"
    by (simp add: exampleEnv_def exampleParse_def)
  have s: "protocol ?u \<noteq> ''https:''" by simp
  have l: "locahostPattern (hostname ?u)" by (simp add: locahostPattern_def)
  have a: "alphaWarnings exampleEnv identityConfig subProtocolSequence = []"
    by (simp add: subProtocolSequence_def subProtocolEnabled_def exampleEnv_def identityConfig_def)
  from insecure_dev_host_warns_and_completes [OF p s l, of emptyWorld identityConfig]
  show ?thesis using p l a by (auto simp: emptyWorld_def)
qed

text \<open>
  C10.  \<open>validateBaseUrl\<close> prints the warning exactly when the string parses, the
  scheme is not \<open>https:\<close> and the hostname passes the test, and the test accepts
  exactly \<open>locahost\<close>, an optional colon and digits.  So for a base URL whose
  hostname is \<open>localhost\<close>, whatever its scheme, \<open>validateBaseUrl\<close> prints nothing
  and changes nothing, and the whole build prints at most the notice of the public
  profile, which is not the warning.
\<close>

theorem ssl_warning_only_for_locahost:
  "console (snd (validateBaseUrl e b w)) =
     console w @
     (case parseURL e b of
        Inl err \<Rightarrow> []
      | Inr u \<Rightarrow> if protocol u \<noteq> ''https:'' \<and> locahostPattern (hostname u)
                then [sslWarning] else []) \<and>
   locahostPattern h =
     (\<exists>ds. list_all isDigit ds \<and> (h = ''locahost'' @ ds \<or> h = ''locahost:'' @ ds)) \<and>
   (parseURL e b = Inr u \<and> hostname u = ''localhost'' \<longrightarrow>
      validateBaseUrl e b w = (Inr u, w) \<and>
      console (snd (buildPaymailRouter e b cfg w)) =
        console w @ alphaWarnings e cfg subProtocolSequence \<and>
      sslWarning \<notin> set (alphaWarnings e cfg subProtocolSequence))"
proof (intro conjI impI)
  show "console (snd (validateBaseUrl e b w)) =
     console w @
     (case parseURL e b of
        Inl err \<Rightarrow> []
      | Inr u \<Rightarrow> if protocol u \<noteq> ''https:'' \<and> locahostPattern (hostname u)
                then [sslWarning] else [])"
    by (simp add: validateBaseUrl_def consoleWarn_def split: sum.splits)
  show "locahostPattern h =
     (\<exists>ds. list_all isDigit ds \<and> (h = ''locahost'' @ ds \<or> h = ''locahost:'' @ ds))"
    by (rule locahostPattern_iff)
next
  assume a: "parseURL e b = Inr u \<and> hostname u = ''localhost''"
  then show "validateBaseUrl e b w = (Inr u, w)"
    by (simp add: validateBaseUrl_def localhost_no_match)
  from a show "console (snd (buildPaymailRouter e b cfg w)) =
        console w @ alphaWarnings e cfg subProtocolSequence"
    using build_console [of e b u cfg w] by (simp add: localhost_no_match)
  show "sslWarning \<notin> set (alphaWarnings e cfg subProtocolSequence)"
    by (rule sslWarning_not_alpha)
qed

theorem ssl_warning_only_for_locahost_witness:
  "parseURL exampleEnv ''http://localhost:3000''
     = Inr \<lparr>protocol = ''http:'', hostname = ''localhost'', href = ''http://localhost:3000/''\<rparr> \<and>
   validateBaseUrl exampleEnv ''http://localhost:3000'' emptyWorld
     = (Inr \<lparr>protocol = ''http:'', hostname = ''localhost'', href = ''http://localhost:3000/''\<rparr>,
        emptyWorld) \<and>
   console (snd (buildPaymailRouter exampleEnv ''http://localhost:3000'' identityConfig emptyWorld))
     = []"
proof -
  let ?u = "\<lparr>protocol = ''http:'', hostname = ''localhost'', href = ''http://localhost:3000/''\<rparr>"
  have p: "parseURL exampleEnv ''http://localhost:3000'' = Inr ?u"
    by (simp add: exampleEnv_def exampleParse_def)
  have a: "alphaWarnings exampleEnv identityConfig subProtocolSequence = []"
    by (simp add: subProtocolSequence_def subProtocolEnabled_def exampleEnv_def identityConfig_def)
  from ssl_warning_only_for_locahost
    [of exampleEnv "''http://localhost:3000''" emptyWorld "''localhost''" ?u identityConfig]
  show ?thesis using p a by (simp add: emptyWorld_def)
qed

end
